theory Spec2Isabelle
  imports Main "HOL-Library.Word"
begin

section \<open>The intermediate representation the pass emits\<close>

text \<open>
  WIFuncResolution (src/unnamed/part_000) rewrites work-item query calls of an LLVM
  function into instruction sequences. The sequences an IRBuilder emits are modelled as
  expression trees: a node is an instruction (or constant expression), its children are
  its operands. A use of a value is an occurrence of it in a tree. Value names and debug
  locations (\<^verbatim>\<open>updateDebugLoc\<close>) are labels without meaning and are left out.
\<close>

datatype ty =
    IntegerType nat
  | PointerType ty nat
  | FixedVectorType ty nat
  | VoidType

datatype predicate = ICMP_EQ | ICMP_SGT

datatype intrinsic = GenISA_simdSize | GenISA_getR0 | GenISA_simdLaneId

datatype IRValue =
    ConstantInt nat nat
  | ConstantDataVector "nat list"
  | UndefValue ty
  | Argument nat ty
  | InstResult nat ty
  | CallIntrinsic intrinsic ty
  | IntToPtr IRValue ty
  | BitCast IRValue ty
  | Load IRValue "nat option"
  | ExtractElement IRValue IRValue
  | InsertElement IRValue IRValue IRValue
  | ZExt IRValue ty
  | Trunc IRValue ty
  | LShr IRValue IRValue
  | Mul IRValue IRValue
  | Add IRValue IRValue
  | ICmp predicate IRValue IRValue
  | Select IRValue IRValue IRValue

text \<open>
  \<^verbatim>\<open>ConstantInt w n\<close> is the constant \<open>n\<close> of type \<open>iw\<close>; \<^verbatim>\<open>ConstantDataVector\<close> is a
  constant vector of 32-bit elements; \<^verbatim>\<open>Argument k t\<close> is formal parameter number \<open>k\<close>
  (from 0) of the enclosing function; \<^verbatim>\<open>InstResult i t\<close> is the result of instruction
  \<open>i\<close> of the function body; \<^verbatim>\<open>Load p a\<close> carries the alignment set on the load, if any.
\<close>

fun getPrimitiveSizeInBits :: "ty \<Rightarrow> nat" where
  "getPrimitiveSizeInBits (IntegerType n) = n"
| "getPrimitiveSizeInBits (FixedVectorType e k) = k * getPrimitiveSizeInBits e"
| "getPrimitiveSizeInBits (PointerType _ _) = 0"
| "getPrimitiveSizeInBits VoidType = 0"

fun getScalarType :: "ty \<Rightarrow> ty" where
  "getScalarType (FixedVectorType e _) = e"
| "getScalarType t = t"

definition getScalarSizeInBits :: "ty \<Rightarrow> nat" where
  "getScalarSizeInBits t = getPrimitiveSizeInBits (getScalarType t)"

fun type_of :: "IRValue \<Rightarrow> ty" where
  "type_of (ConstantInt w _) = IntegerType w"
| "type_of (ConstantDataVector xs) = FixedVectorType (IntegerType 32) (length xs)"
| "type_of (UndefValue t) = t"
| "type_of (Argument _ t) = t"
| "type_of (InstResult _ t) = t"
| "type_of (CallIntrinsic _ t) = t"
| "type_of (IntToPtr _ t) = t"
| "type_of (BitCast _ t) = t"
| "type_of (Load p _) = (case type_of p of PointerType t _ \<Rightarrow> t | _ \<Rightarrow> VoidType)"
| "type_of (ExtractElement v _) =
     (case type_of v of FixedVectorType e _ \<Rightarrow> e | _ \<Rightarrow> VoidType)"
| "type_of (InsertElement v _ _) = type_of v"
| "type_of (ZExt _ t) = t"
| "type_of (Trunc _ t) = t"
| "type_of (LShr a _) = type_of a"
| "type_of (Mul a _) = type_of a"
| "type_of (Add a _) = type_of a"
| "type_of (ICmp _ _ _) = IntegerType 1"
| "type_of (Select _ a _) = type_of a"

subsection \<open>Well-formedness: the operand checks of the LLVM instruction constructors\<close>

fun isIntegerTy :: "ty \<Rightarrow> bool" where
  "isIntegerTy (IntegerType _) = True"
| "isIntegerTy _ = False"

fun isPointerTy :: "ty \<Rightarrow> bool" where
  "isPointerTy (PointerType _ _) = True"
| "isPointerTy _ = False"

fun isVectorTy :: "ty \<Rightarrow> bool" where
  "isVectorTy (FixedVectorType _ _) = True"
| "isVectorTy _ = False"

fun getAddressSpace :: "ty \<Rightarrow> nat" where
  "getAddressSpace (PointerType _ a) = a"
| "getAddressSpace _ = 0"

text \<open>
  \<^verbatim>\<open>CastInst::castIsValid\<close> for a bitcast: a pointer is cast to a pointer of the same
  address space only; any other cast needs source and destination of the same bit width.
\<close>

definition castIsValid_BitCast :: "ty \<Rightarrow> ty \<Rightarrow> bool" where
  "castIsValid_BitCast s d =
     (if isPointerTy (getScalarType s) \<noteq> isPointerTy (getScalarType d) then False
      else if \<not> isPointerTy (getScalarType s)
        then getPrimitiveSizeInBits s = getPrimitiveSizeInBits d
      else getAddressSpace (getScalarType s) = getAddressSpace (getScalarType d))"

fun verify :: "IRValue \<Rightarrow> bool" where
  "verify (IntToPtr v t) = (verify v \<and> isIntegerTy (type_of v) \<and> isPointerTy t)"
| "verify (BitCast v t) = (verify v \<and> castIsValid_BitCast (type_of v) t)"
| "verify (Load p _) = (verify p \<and> isPointerTy (type_of p))"
| "verify (ExtractElement v i) =
     (verify v \<and> verify i \<and> isVectorTy (type_of v) \<and> isIntegerTy (type_of i))"
| "verify (InsertElement v e i) =
     (verify v \<and> verify e \<and> verify i \<and> isVectorTy (type_of v) \<and>
      type_of e = getScalarType (type_of v) \<and> isIntegerTy (type_of i))"
| "verify (ZExt v t) =
     (verify v \<and> isIntegerTy (type_of v) \<and> isIntegerTy t \<and>
      getPrimitiveSizeInBits (type_of v) < getPrimitiveSizeInBits t)"
| "verify (Trunc v t) =
     (verify v \<and> isIntegerTy (type_of v) \<and> isIntegerTy t \<and>
      getPrimitiveSizeInBits t < getPrimitiveSizeInBits (type_of v))"
| "verify (LShr a b) = (verify a \<and> verify b \<and> isIntegerTy (type_of a) \<and> type_of b = type_of a)"
| "verify (Mul a b) = (verify a \<and> verify b \<and> isIntegerTy (type_of a) \<and> type_of b = type_of a)"
| "verify (Add a b) = (verify a \<and> verify b \<and> isIntegerTy (type_of a) \<and> type_of b = type_of a)"
| "verify (ICmp _ a b) = (verify a \<and> verify b \<and> isIntegerTy (type_of a) \<and> type_of b = type_of a)"
| "verify (Select c a b) =
     (verify c \<and> verify a \<and> verify b \<and> type_of c = IntegerType 1 \<and> type_of b = type_of a)"
| "verify _ = True"

section \<open>Run-time values and the meaning of a tree\<close>

text \<open>
  \<^verbatim>\<open>IntV w n\<close> is the \<open>w\<close>-bit integer with unsigned value \<open>n\<close>; \<^verbatim>\<open>PtrV a p\<close> is address
  \<open>p\<close> of address space \<open>a\<close>; \<^verbatim>\<open>VecV w xs\<close> is a vector of \<open>w\<close>-bit lanes, a lane
  \<^verbatim>\<open>None\<close> being undefined. Memory is little-endian, as the side buffer's layout is.
\<close>

datatype rtval = IntV nat nat | PtrV nat nat | VecV nat "nat option list" | UndefV

fun le_nat :: "8 word list \<Rightarrow> nat" where
  "le_nat [] = 0"
| "le_nat (b # bs) = unat b + 256 * le_nat bs"

fun nat_le :: "nat \<Rightarrow> nat \<Rightarrow> 8 word list" where
  "nat_le 0 n = []"
| "nat_le (Suc k) n = of_nat (n mod 256) # nat_le k (n div 256)"

fun bytes_of_val :: "rtval \<Rightarrow> 8 word list option" where
  "bytes_of_val (IntV w n) = (if w mod 8 = 0 then Some (nat_le (w div 8) n) else None)"
| "bytes_of_val (VecV w xs) =
     (if w mod 8 = 0 \<and> list_all (\<lambda>x. x \<noteq> None) xs
      then Some (concat (map (\<lambda>x. nat_le (w div 8) (the x)) xs)) else None)"
| "bytes_of_val _ = None"

fun val_of_bytes :: "ty \<Rightarrow> 8 word list \<Rightarrow> rtval option" where
  "val_of_bytes (IntegerType w) bs =
     (if w mod 8 = 0 \<and> length bs = w div 8 then Some (IntV w (le_nat bs)) else None)"
| "val_of_bytes (FixedVectorType (IntegerType w) n) bs =
     (if w mod 8 = 0 \<and> length bs = n * (w div 8)
      then Some (VecV w (map (\<lambda>k. Some (le_nat (take (w div 8) (drop (k * (w div 8)) bs))))
                          [0..<n]))
      else None)"
| "val_of_bytes _ bs = None"

record env =
  memory :: "nat \<Rightarrow> nat \<Rightarrow> 8 word"
  ptrBits :: "nat \<Rightarrow> nat"
  simdSize :: "32 word"
  r0 :: "32 word list"
  simdLaneId :: "16 word"
  argv :: "nat \<Rightarrow> rtval option"
  instv :: "nat \<Rightarrow> rtval option"

text \<open>
  \<^verbatim>\<open>memory e a p\<close> is the byte at address \<open>p\<close> of address space \<open>a\<close>; \<^verbatim>\<open>ptrBits e a\<close> the
  pointer width of address space \<open>a\<close>; \<^verbatim>\<open>simdSize\<close>, \<^verbatim>\<open>r0\<close> and \<^verbatim>\<open>simdLaneId\<close> are what the
  three platform intrinsics return in the running hardware thread and lane.
\<close>

definition to_signed :: "nat \<Rightarrow> nat \<Rightarrow> int" where
  "to_signed w n = (if 2 * n < 2 ^ w then int n else int n - 2 ^ w)"

definition load_bytes :: "env \<Rightarrow> nat \<Rightarrow> nat \<Rightarrow> nat \<Rightarrow> 8 word list" where
  "load_bytes e a p n = map (memory e a) [p..<p + n]"

fun binop :: "(nat \<Rightarrow> nat \<Rightarrow> nat) \<Rightarrow> rtval option \<Rightarrow> rtval option \<Rightarrow> rtval option" where
  "binop f (Some (IntV w a)) (Some (IntV w' b)) =
     (if w = w' then Some (IntV w (f a b mod 2 ^ w)) else None)"
| "binop f _ _ = None"

fun lshr :: "rtval option \<Rightarrow> rtval option \<Rightarrow> rtval option" where
  "lshr (Some (IntV w a)) (Some (IntV w' b)) =
     (if w = w' \<and> b < w then Some (IntV w (a div 2 ^ b)) else None)"
| "lshr _ _ = None"

fun icmp :: "predicate \<Rightarrow> rtval option \<Rightarrow> rtval option \<Rightarrow> rtval option" where
  "icmp ICMP_EQ (Some (IntV w a)) (Some (IntV w' b)) =
     (if w = w' then Some (IntV 1 (if a = b then 1 else 0)) else None)"
| "icmp ICMP_SGT (Some (IntV w a)) (Some (IntV w' b)) =
     (if w = w' then Some (IntV 1 (if to_signed w b < to_signed w a then 1 else 0)) else None)"
| "icmp _ _ _ = None"

fun select :: "rtval option \<Rightarrow> rtval option \<Rightarrow> rtval option \<Rightarrow> rtval option" where
  "select (Some (IntV w c)) (Some a) (Some b) =
     (if w = 1 then Some (if c = 1 then a else b) else None)"
| "select _ _ _ = None"

fun extractelement :: "rtval option \<Rightarrow> rtval option \<Rightarrow> rtval option" where
  "extractelement (Some (VecV w xs)) (Some (IntV _ i)) =
     (if i < length xs then Some (case xs ! i of Some n \<Rightarrow> IntV w n | None \<Rightarrow> UndefV)
      else None)"
| "extractelement _ _ = None"

fun insertelement :: "rtval option \<Rightarrow> rtval option \<Rightarrow> rtval option \<Rightarrow> rtval option" where
  "insertelement (Some (VecV w xs)) (Some (IntV w' n)) (Some (IntV _ i)) =
     (if w = w' \<and> i < length xs then Some (VecV w (xs[i := Some n])) else None)"
| "insertelement _ _ _ = None"

fun zext :: "rtval option \<Rightarrow> ty \<Rightarrow> rtval option" where
  "zext (Some (IntV w n)) (IntegerType w') = (if w < w' then Some (IntV w' n) else None)"
| "zext _ _ = None"

fun trunc :: "rtval option \<Rightarrow> ty \<Rightarrow> rtval option" where
  "trunc (Some (IntV w n)) (IntegerType w') =
     (if w' < w then Some (IntV w' (n mod 2 ^ w')) else None)"
| "trunc _ _ = None"

fun inttoptr :: "env \<Rightarrow> rtval option \<Rightarrow> ty \<Rightarrow> rtval option" where
  "inttoptr e (Some (IntV w n)) (PointerType _ a) = Some (PtrV a (n mod 2 ^ ptrBits e a))"
| "inttoptr e _ _ = None"

fun bitcast :: "rtval option \<Rightarrow> ty \<Rightarrow> rtval option" where
  "bitcast (Some (PtrV a p)) (PointerType _ a') = (if a = a' then Some (PtrV a p) else None)"
| "bitcast (Some (PtrV a p)) _ = None"
| "bitcast (Some x) t =
     (case bytes_of_val x of None \<Rightarrow> None | Some bs \<Rightarrow> val_of_bytes t bs)"
| "bitcast None _ = None"

fun load :: "env \<Rightarrow> rtval option \<Rightarrow> ty \<Rightarrow> rtval option" where
  "load e (Some (PtrV a p)) (PointerType t _) =
     val_of_bytes t (load_bytes e a p (getPrimitiveSizeInBits t div 8))"
| "load e _ _ = None"

text \<open>
  \<^verbatim>\<open>eval\<close> gives the value a tree computes, or \<^verbatim>\<open>None\<close> where the tree has none: an
  ill-typed operand, a bitcast between different widths, a lane index out of range.
\<close>

fun eval :: "env \<Rightarrow> IRValue \<Rightarrow> rtval option" where
  "eval e (ConstantInt w n) = Some (IntV w (n mod 2 ^ w))"
| "eval e (ConstantDataVector xs) = Some (VecV 32 (map (\<lambda>x. Some (x mod 2 ^ 32)) xs))"
| "eval e (UndefValue t) =
     (case t of FixedVectorType (IntegerType w) n \<Rightarrow> Some (VecV w (replicate n None))
      | _ \<Rightarrow> Some UndefV)"
| "eval e (Argument k _) = argv e k"
| "eval e (InstResult i _) = instv e i"
| "eval e (CallIntrinsic GenISA_simdSize _) = Some (IntV 32 (unat (simdSize e)))"
| "eval e (CallIntrinsic GenISA_getR0 _) = Some (VecV 32 (map (\<lambda>x. Some (unat x)) (r0 e)))"
| "eval e (CallIntrinsic GenISA_simdLaneId _) = Some (IntV 16 (unat (simdLaneId e)))"
| "eval e (IntToPtr v t) = inttoptr e (eval e v) t"
| "eval e (BitCast v t) = bitcast (eval e v) t"
| "eval e (Load p _) = load e (eval e p) (type_of p)"
| "eval e (ExtractElement v i) = extractelement (eval e v) (eval e i)"
| "eval e (InsertElement v x i) = insertelement (eval e v) (eval e x) (eval e i)"
| "eval e (ZExt v t) = zext (eval e v) t"
| "eval e (Trunc v t) = trunc (eval e v) t"
| "eval e (LShr a b) = lshr (eval e a) (eval e b)"
| "eval e (Mul a b) = binop (\<lambda>x y. x * y) (eval e a) (eval e b)"
| "eval e (Add a b) = binop (\<lambda>x y. x + y) (eval e a) (eval e b)"
| "eval e (ICmp p a b) = icmp p (eval e a) (eval e b)"
| "eval e (Select c a b) = select (eval e c) (eval e a) (eval e b)"

section \<open>Errors\<close>

text \<open>
  A failed assertion aborts the compilation; \<^verbatim>\<open>UndefinedBehaviour\<close> stands where the C++
  has none defined (a division by zero, an iterator moved past the end, an operand that
  is not there).
\<close>

datatype error = AssertionFailed | UndefinedBehaviour

fun bind_err :: "error + 'a \<Rightarrow> ('a \<Rightarrow> error + 'b) \<Rightarrow> error + 'b" where
  "bind_err (Inl e) f = Inl e"
| "bind_err (Inr x) f = f x"

text \<open>
  Modelled from the spec: the macro \<^verbatim>\<open>IGC_ASSERT_MESSAGE\<close> (Probe/Assertion.h) is not
  among the sources. The spec calls the invariant it guards "fatal if violated": a false
  condition aborts the compilation.
\<close>

definition IGC_ASSERT_MESSAGE :: "bool \<Rightarrow> error + unit" where
  "IGC_ASSERT_MESSAGE c = (if c then Inr () else Inl AssertionFailed)"

section \<open>The side buffer's layout: GLOBAL_STATE_FIELD_OFFSETS\<close>

definition sizeof_uint8_t :: nat where "sizeof_uint8_t = 1"
definition sizeof_uint32_t :: nat where "sizeof_uint32_t = 4"
definition sizeof_uint64_t :: nat where "sizeof_uint64_t = 8"

definition STRUCT_SIZE :: nat where "STRUCT_SIZE = 0"
definition VERSION :: nat where "VERSION = STRUCT_SIZE + sizeof_uint8_t"
definition NUM_WORK_DIM :: nat where "NUM_WORK_DIM = VERSION + sizeof_uint8_t"
definition SIMDSIZE :: nat where "SIMDSIZE = NUM_WORK_DIM + sizeof_uint8_t"
definition LOCAL_SIZES :: nat where "LOCAL_SIZES = SIMDSIZE + sizeof_uint8_t"
definition LOCAL_SIZE_X :: nat where "LOCAL_SIZE_X = LOCAL_SIZES"
definition LOCAL_SIZE_Y :: nat where "LOCAL_SIZE_Y = LOCAL_SIZE_X + sizeof_uint32_t"
definition LOCAL_SIZE_Z :: nat where "LOCAL_SIZE_Z = LOCAL_SIZE_Y + sizeof_uint32_t"
definition GLOBAL_SIZES :: nat where "GLOBAL_SIZES = LOCAL_SIZE_Z + sizeof_uint32_t"
definition GLOBAL_SIZE_X :: nat where "GLOBAL_SIZE_X = GLOBAL_SIZES"
definition GLOBAL_SIZE_Y :: nat where "GLOBAL_SIZE_Y = GLOBAL_SIZE_X + sizeof_uint64_t"
definition GLOBAL_SIZE_Z :: nat where "GLOBAL_SIZE_Z = GLOBAL_SIZE_Y + sizeof_uint64_t"
definition PRINTF_BUFFER :: nat where "PRINTF_BUFFER = GLOBAL_SIZE_Z + sizeof_uint64_t"
definition GLOBAL_OFFSETS :: nat where "GLOBAL_OFFSETS = PRINTF_BUFFER + sizeof_uint64_t"
definition GLOBAL_OFFSET_X :: nat where "GLOBAL_OFFSET_X = GLOBAL_OFFSETS"
definition GLOBAL_OFFSET_Y :: nat where "GLOBAL_OFFSET_Y = GLOBAL_OFFSET_X + sizeof_uint64_t"
definition GLOBAL_OFFSET_Z :: nat where "GLOBAL_OFFSET_Z = GLOBAL_OFFSET_Y + sizeof_uint64_t"
definition LOCAL_IDS :: nat where "LOCAL_IDS = GLOBAL_OFFSET_Z + sizeof_uint64_t"
definition GROUP_COUNTS :: nat where "GROUP_COUNTS = LOCAL_IDS + sizeof_uint64_t"
definition GROUP_COUNT_X :: nat where "GROUP_COUNT_X = GROUP_COUNTS"
definition GROUP_COUNT_Y :: nat where "GROUP_COUNT_Y = GROUP_COUNT_X + sizeof_uint32_t"
definition GROUP_COUNT_Z :: nat where "GROUP_COUNT_Z = GROUP_COUNT_Y + sizeof_uint32_t"

section \<open>Functions, calls and what the pass is given\<close>

text \<open>
  \<^verbatim>\<open>Context\<close> holds what the pass reads from headers and analyses that are not among the
  sources: the number of the address space \<^verbatim>\<open>ADDRESS_SPACE_A32\<close>, the data layout's pointer
  width per address space, and the platform's register size \<^verbatim>\<open>getGRFSize()\<close> in bytes.
\<close>

record Context =
  ADDRESS_SPACE_A32 :: nat
  pointerSizeInBits :: "nat \<Rightarrow> nat"
  getGRFSize :: nat

text \<open>The macro \<^verbatim>\<open>SIZE_DWORD\<close> is the byte size of a 32-bit lane of R0.\<close>

definition SIZE_DWORD :: nat where "SIZE_DWORD = 4"

datatype ArgType =
    R0 | PAYLOAD_HEADER | WORK_DIM | NUM_GROUPS | GLOBAL_SIZE | LOCAL_SIZE
  | ENQUEUED_LOCAL_WORK_SIZE | LOCAL_ID_X | LOCAL_ID_Y | LOCAL_ID_Z
  | STAGE_IN_GRID_ORIGIN | STAGE_IN_GRID_SIZE | SYNC_BUFFER

record CallInst =
  calledFunction :: "string option"
  argOperands :: "IRValue list"
  callType :: ty

datatype Instruction = Call CallInst | Other IRValue

text \<open>
  A function: the types of its formal parameters, whether it carries the attribute
  \<^verbatim>\<open>visaStackCall\<close>, and its instructions, each with the number \<^verbatim>\<open>InstResult\<close> refers to.
  \<^verbatim>\<open>calledFunction\<close> is the callee's name, \<^verbatim>\<open>None\<close> for an indirect call.
\<close>

record Function =
  arg_types :: "ty list"
  visaStackCall :: bool
  body :: "(nat \<times> Instruction) list"

text \<open>
  \<^verbatim>\<open>MetaData\<close> is what the metadata analysis holds for the function: its hidden arguments
  in their order (\<^verbatim>\<open>ImplicitArgs(F, MDUtils)\<close>) and its compile-time group dimensions
  (\<^verbatim>\<open>IGCMetaDataHelper::getThreadGroupDims\<close>), if known.
\<close>

record MetaData =
  implicitArgs :: "ArgType list"
  threadGroupDims :: "(nat \<times> nat \<times> nat) option"

record WIFuncResolution =
  m_changed :: bool
  m_implicitArgs :: "ArgType list"

definition hasStackCallAttr :: "Function \<Rightarrow> bool" where
  "hasStackCallAttr F = visaStackCall F"

definition arg_size :: "Function \<Rightarrow> nat" where
  "arg_size F = length (arg_types F)"

text \<open>
  Modelled from the spec: the class \<^verbatim>\<open>ImplicitArgs\<close> is not among the sources. The spec
  has the hidden arguments as an ordered collection, the trailing N parameters of the
  function in one fixed order; a kind's index is its position in that collection. For a
  kind that is absent the search below ends at N.
\<close>

fun getArgIndex :: "ArgType list \<Rightarrow> ArgType \<Rightarrow> nat" where
  "getArgIndex [] t = 0"
| "getArgIndex (a # as) t = (if a = t then 0 else Suc (getArgIndex as t))"

text \<open>
  Modelled from the spec: \<^verbatim>\<open>ImplicitArgs::getImplicitArg(F, kind)\<close>, the lookup the
  per-function entry point uses, gives the formal parameter that carries the kind when
  the kind is present, and nothing otherwise.
\<close>

definition ImplicitArgs_getImplicitArg :: "ArgType list \<Rightarrow> Function \<Rightarrow> ArgType \<Rightarrow> IRValue option" where
  "ImplicitArgs_getImplicitArg ia F t =
     (let k = arg_size F - length ia + getArgIndex ia t
      in if t \<in> set ia \<and> length ia \<le> arg_size F
         then Some (Argument k (arg_types F ! k)) else None)"

section \<open>The IRBuilder calls the pass makes\<close>

text \<open>
  \<^verbatim>\<open>IRBuilder::CreateCast\<close> returns its operand when it already has the destination type;
  \<^verbatim>\<open>CreateZExtOrBitCast\<close> picks the bitcast when the scalar widths agree. An index or a
  shift amount given as a C++ integer becomes a constant: of 64 bits for a lane index, of
  the left operand's type for a shift.
\<close>

definition ConstantInt_get :: "ty \<Rightarrow> nat \<Rightarrow> IRValue" where
  "ConstantInt_get t n = ConstantInt (getScalarSizeInBits t) n"

definition getIntN :: "nat \<Rightarrow> nat \<Rightarrow> IRValue" where
  "getIntN N C = ConstantInt N C"

definition CreateIntToPtr :: "IRValue \<Rightarrow> ty \<Rightarrow> IRValue" where
  "CreateIntToPtr v t = (if type_of v = t then v else IntToPtr v t)"

definition CreateBitCast :: "IRValue \<Rightarrow> ty \<Rightarrow> IRValue" where
  "CreateBitCast v t = (if type_of v = t then v else BitCast v t)"

definition CreateZExt :: "IRValue \<Rightarrow> ty \<Rightarrow> IRValue" where
  "CreateZExt v t = (if type_of v = t then v else ZExt v t)"

definition CreateTrunc :: "IRValue \<Rightarrow> ty \<Rightarrow> IRValue" where
  "CreateTrunc v t = (if type_of v = t then v else Trunc v t)"

definition CreateZExtOrBitCast :: "IRValue \<Rightarrow> ty \<Rightarrow> IRValue" where
  "CreateZExtOrBitCast v t =
     (if type_of v = t then v
      else if getScalarSizeInBits (type_of v) = getScalarSizeInBits t then BitCast v t
      else ZExt v t)"

definition CreateExtractElement :: "IRValue \<Rightarrow> nat \<Rightarrow> IRValue" where
  "CreateExtractElement v i = ExtractElement v (ConstantInt 64 i)"

definition CreateInsertElement :: "IRValue \<Rightarrow> IRValue \<Rightarrow> nat \<Rightarrow> IRValue" where
  "CreateInsertElement v x i = InsertElement v x (ConstantInt 64 i)"

definition CreateLShr :: "IRValue \<Rightarrow> nat \<Rightarrow> IRValue" where
  "CreateLShr v n = LShr v (ConstantInt_get (type_of v) n)"

section \<open>BuildLoadInst: the field loader\<close>

text \<open>
  The copy loop of the misaligned path, \<^verbatim>\<open>for (I = Offset; I != Offset + Size; ++I)\<close>.
  \<open>I\<close> is an \<^verbatim>\<open>unsigned int\<close>, so the loop leaves after \<open>Size\<close> steps; the first argument
  counts the steps left. The lane read is \<open>I - AlignedOffset\<close> in 32-bit arithmetic, the
  lane written \<open>(uint64_t)I - (uint64_t)Offset\<close> in 64-bit arithmetic.
\<close>

fun copyLoop :: "nat \<Rightarrow> IRValue \<Rightarrow> nat \<Rightarrow> nat \<Rightarrow> nat \<Rightarrow> IRValue \<Rightarrow> IRValue" where
  "copyLoop 0 BitCastToByte Offset AlignedOffset I NewVector = NewVector"
| "copyLoop (Suc n) BitCastToByte Offset AlignedOffset I NewVector =
     copyLoop n BitCastToByte Offset AlignedOffset ((I + 1) mod 2 ^ 32)
       (CreateInsertElement NewVector
          (CreateExtractElement BitCastToByte ((I + 2 ^ 32 - AlignedOffset) mod 2 ^ 32))
          ((I + 2 ^ 64 - Offset) mod 2 ^ 64))"

text \<open>
  \<^verbatim>\<open>Offset\<close>, \<^verbatim>\<open>Size\<close> and \<^verbatim>\<open>LoadByteSize\<close> are \<^verbatim>\<open>unsigned int\<close>: the products wrap at
  \<open>2 ^ 32\<close>. A type whose scalar has fewer than 8 bits has \<^verbatim>\<open>ElemByteSize = 0\<close>, and the
  division by it is undefined.
\<close>

definition BuildLoadInst :: "Context \<Rightarrow> nat \<Rightarrow> ty \<Rightarrow> error + IRValue" where
  "BuildLoadInst ctx Offset DataType =
     (let ElemByteSize = getScalarSizeInBits DataType div 8;
          Size = (case DataType of
                    FixedVectorType _ n \<Rightarrow> (ElemByteSize * n) mod 2 ^ 32
                  | _ \<Rightarrow> ElemByteSize)
      in if ElemByteSize = 0 then Inl UndefinedBehaviour
         else
           let AlignedOffset = (Offset div ElemByteSize) * ElemByteSize;
               LoadByteSize = (if Offset = AlignedOffset then Size else (Size * 2) mod 2 ^ 32);
               Int32Ptr = PointerType (IntegerType 32) (ADDRESS_SPACE_A32 ctx);
               ElemType = getScalarType DataType;
               LoadType = FixedVectorType ElemType (LoadByteSize div ElemByteSize);
               PtrType = PointerType LoadType (ADDRESS_SPACE_A32 ctx);
               IntToPtr' = CreateIntToPtr
                  (getIntN (pointerSizeInBits ctx (ADDRESS_SPACE_A32 ctx)) AlignedOffset) Int32Ptr;
               BitCast' = CreateBitCast IntToPtr' PtrType;
               LoadInst = Load BitCast' (Some ElemByteSize)
           in if Offset \<noteq> AlignedOffset
              then
                let ByteType = IntegerType 8;
                    BitCastToByte = CreateBitCast LoadInst ByteType;
                    NewVector = UndefValue (FixedVectorType ByteType Size)
                in Inr (CreateBitCast
                          (copyLoop Size BitCastToByte Offset AlignedOffset Offset NewVector)
                          DataType)
              else Inr (CreateBitCast LoadInst DataType))"

section \<open>The hidden-argument resolver\<close>

text \<open>
  \<^verbatim>\<open>WIFuncResolution::getImplicitArg\<close>. After the assertion the index is
  \<open>P - N + i\<close>; the iterator is moved that many times from \<^verbatim>\<open>arg_begin()\<close> and read, which
  is undefined from \<open>P\<close> on. A function type holds a 32-bit parameter count, so the index
  arithmetic is written on naturals.
\<close>

definition getImplicitArg :: "WIFuncResolution \<Rightarrow> Function \<Rightarrow> ArgType \<Rightarrow> error + IRValue" where
  "getImplicitArg st pFunc argType =
     (let numImplicitArgs = length (m_implicitArgs st);
          implicitArgIndex = getArgIndex (m_implicitArgs st) argType
      in bind_err (IGC_ASSERT_MESSAGE (numImplicitArgs \<le> arg_size pFunc)) (\<lambda>_.
           let implicitArgIndexInFunc = arg_size pFunc - numImplicitArgs + implicitArgIndex
           in if implicitArgIndexInFunc < arg_size pFunc
              then Inr (Argument implicitArgIndexInFunc (arg_types pFunc ! implicitArgIndexInFunc))
              else Inl UndefinedBehaviour))"

definition getArgOperand :: "CallInst \<Rightarrow> nat \<Rightarrow> error + IRValue" where
  "getArgOperand CI i =
     (if i < length (argOperands CI) then Inr (argOperands CI ! i) else Inl UndefinedBehaviour)"

definition getR0 :: "Context \<Rightarrow> IRValue" where
  "getR0 ctx =
     CallIntrinsic GenISA_getR0 (FixedVectorType (IntegerType 32) (getGRFSize ctx div SIZE_DWORD))"

section \<open>The handlers, one per query\<close>

definition getLocalId ::
  "Context \<Rightarrow> WIFuncResolution \<Rightarrow> Function \<Rightarrow> CallInst \<Rightarrow> ArgType \<Rightarrow> error + IRValue" where
  "getLocalId ctx st F CI argType =
     (if hasStackCallAttr F then
        let DataTypeI64 = IntegerType 64;
            Offset = LOCAL_IDS
        in bind_err (BuildLoadInst ctx Offset DataTypeI64) (\<lambda>LocalIDBase.
        let DataTypeI32 = IntegerType 32;
            SimdSize0 = CallIntrinsic GenISA_simdSize DataTypeI32;
            CmpInst = ICmp ICMP_SGT SimdSize0 (ConstantInt_get (type_of SimdSize0) 16);
            SimdSize = Select CmpInst SimdSize0 (ConstantInt_get (type_of SimdSize0) 16);
            IntCall = getR0 ctx;
            LocalThreadId = ExtractElement IntCall (ConstantInt 32 2);
            DataTypeI16 = IntegerType 16;
            SimdLaneId = CallIntrinsic GenISA_simdLaneId DataTypeI16;
            ThreadBaseOffset1 = Mul SimdSize (ConstantInt_get (type_of SimdSize) 6);
            ThreadBaseOffset2 =
              Mul (CreateZExt ThreadBaseOffset1 (type_of LocalThreadId)) LocalThreadId;
            ThreadBaseOffset =
              Add (CreateZExt ThreadBaseOffset2 (type_of LocalIDBase)) LocalIDBase;
            Factor = (if argType = LOCAL_ID_Y then 2 else if argType = LOCAL_ID_Z then 4 else 0);
            Expr1 = Mul SimdSize (ConstantInt_get (type_of SimdSize) Factor);
            Expr2 = Mul SimdLaneId (ConstantInt_get (type_of SimdLaneId) 2);
            Result1 = Add (CreateZExt Expr1 (type_of LocalIDBase))
                          (CreateZExt Expr2 (type_of LocalIDBase));
            Result = Add Result1 ThreadBaseOffset;
            Int16Ptr = PointerType (IntegerType 16) 0;
            Addr = CreateIntToPtr Result Int16Ptr;
            LoadInst = Load Addr None
        in Inr (CreateZExtOrBitCast LoadInst (callType CI)))
      else getImplicitArg st F argType)"

definition getGroupId ::
  "Context \<Rightarrow> WIFuncResolution \<Rightarrow> Function \<Rightarrow> CallInst \<Rightarrow> error + IRValue" where
  "getGroupId ctx st F CI =
     bind_err (if hasStackCallAttr F then Inr (getR0 ctx) else getImplicitArg st F R0) (\<lambda>V.
     bind_err (getArgOperand CI 0) (\<lambda>dim.
       let cmpDim = ICmp ICMP_EQ dim (ConstantInt 32 0);
           offsetR0 = Select cmpDim (ConstantInt 32 1) (ConstantInt 32 5);
           index = Add dim offsetR0
       in Inr (ExtractElement V index)))"

definition getLocalThreadId ::
  "Context \<Rightarrow> WIFuncResolution \<Rightarrow> Function \<Rightarrow> CallInst \<Rightarrow> error + IRValue" where
  "getLocalThreadId ctx st F CI =
     bind_err (if hasStackCallAttr F then Inr (getR0 ctx) else getImplicitArg st F R0) (\<lambda>V.
       let r0second = ExtractElement V (ConstantInt 32 2)
       in Inr (Trunc r0second (IntegerType 8)))"

text \<open>
  The loop of the three size and offset handlers: each of the three 64-bit lanes is
  extracted, truncated to \<^verbatim>\<open>ElemType\<close> and inserted into a fresh vector.
\<close>

fun truncLanes :: "nat \<Rightarrow> IRValue \<Rightarrow> ty \<Rightarrow> nat \<Rightarrow> IRValue \<Rightarrow> IRValue" where
  "truncLanes 0 LoadInst ElemType I Undef = Undef"
| "truncLanes (Suc n) LoadInst ElemType I Undef =
     truncLanes n LoadInst ElemType (I + 1)
       (CreateInsertElement Undef
          (CreateTrunc (CreateExtractElement LoadInst I) ElemType) I)"

definition getGlobalSize ::
  "Context \<Rightarrow> WIFuncResolution \<Rightarrow> Function \<Rightarrow> CallInst \<Rightarrow> error + IRValue" where
  "getGlobalSize ctx st F CI =
     bind_err
       (if hasStackCallAttr F then
          bind_err (BuildLoadInst ctx GLOBAL_SIZE_X (FixedVectorType (IntegerType 64) 3))
            (\<lambda>LoadInst. Inr (truncLanes 3 LoadInst (callType CI) 0
                               (UndefValue (FixedVectorType (callType CI) 3))))
        else getImplicitArg st F GLOBAL_SIZE) (\<lambda>V.
     bind_err (getArgOperand CI 0) (\<lambda>dim. Inr (ExtractElement V dim)))"

definition getLocalSize ::
  "Context \<Rightarrow> WIFuncResolution \<Rightarrow> Function \<Rightarrow> CallInst \<Rightarrow> error + IRValue" where
  "getLocalSize ctx st F CI =
     bind_err
       (if hasStackCallAttr F then
          let ElemTypeD = IntegerType 32;
              VecTyD = FixedVectorType ElemTypeD 3;
              Offset = LOCAL_SIZE_X
          in BuildLoadInst ctx Offset VecTyD
        else getImplicitArg st F LOCAL_SIZE) (\<lambda>V.
     bind_err (getArgOperand CI 0) (\<lambda>dim. Inr (ExtractElement V dim)))"

definition getEnqueuedLocalSize ::
  "Context \<Rightarrow> WIFuncResolution \<Rightarrow> Function \<Rightarrow> CallInst \<Rightarrow> error + IRValue" where
  "getEnqueuedLocalSize ctx st F CI =
     bind_err
       (if hasStackCallAttr F then
          let ElemTypeD = IntegerType 32;
              VecTyD = FixedVectorType ElemTypeD 3;
              Offset = LOCAL_SIZE_X
          in BuildLoadInst ctx Offset VecTyD
        else getImplicitArg st F ENQUEUED_LOCAL_WORK_SIZE) (\<lambda>V.
     bind_err (getArgOperand CI 0) (\<lambda>dim. Inr (ExtractElement V dim)))"

definition getGlobalOffset ::
  "Context \<Rightarrow> WIFuncResolution \<Rightarrow> Function \<Rightarrow> CallInst \<Rightarrow> error + IRValue" where
  "getGlobalOffset ctx st F CI =
     bind_err
       (if hasStackCallAttr F then
          bind_err (BuildLoadInst ctx GLOBAL_OFFSET_X (FixedVectorType (IntegerType 64) 3))
            (\<lambda>LoadInst. Inr (truncLanes 3 LoadInst (callType CI) 0
                               (UndefValue (FixedVectorType (callType CI) 3))))
        else getImplicitArg st F PAYLOAD_HEADER) (\<lambda>V.
     bind_err (getArgOperand CI 0) (\<lambda>dim. Inr (ExtractElement V dim)))"

definition getWorkDim ::
  "Context \<Rightarrow> WIFuncResolution \<Rightarrow> Function \<Rightarrow> CallInst \<Rightarrow> error + IRValue" where
  "getWorkDim ctx st F CI =
     (if hasStackCallAttr F then
        let Size = 4;
            Offset = NUM_WORK_DIM div Size;
            TypeUD = IntegerType 32
        in bind_err (BuildLoadInst ctx Offset TypeUD) (\<lambda>LoadInst.
             Inr (CreateLShr LoadInst 24))
      else getImplicitArg st F WORK_DIM)"

definition getNumGroups ::
  "Context \<Rightarrow> WIFuncResolution \<Rightarrow> Function \<Rightarrow> CallInst \<Rightarrow> error + IRValue" where
  "getNumGroups ctx st F CI =
     bind_err
       (if hasStackCallAttr F then
          let ElemTypeUD = IntegerType 32;
              VecTyUD = FixedVectorType ElemTypeUD 3;
              Offset = GROUP_COUNT_X
          in BuildLoadInst ctx Offset VecTyUD
        else getImplicitArg st F NUM_GROUPS) (\<lambda>V.
     bind_err (getArgOperand CI 0) (\<lambda>dim. Inr (ExtractElement V dim)))"

definition getStageInGridOrigin ::
  "Context \<Rightarrow> WIFuncResolution \<Rightarrow> Function \<Rightarrow> CallInst \<Rightarrow> error + IRValue" where
  "getStageInGridOrigin ctx st F CI =
     bind_err (getImplicitArg st F STAGE_IN_GRID_ORIGIN) (\<lambda>arg.
     bind_err (getArgOperand CI 0) (\<lambda>dim. Inr (ExtractElement arg dim)))"

definition getStageInGridSize ::
  "Context \<Rightarrow> WIFuncResolution \<Rightarrow> Function \<Rightarrow> CallInst \<Rightarrow> error + IRValue" where
  "getStageInGridSize ctx st F CI =
     bind_err
       (if hasStackCallAttr F then
          bind_err (BuildLoadInst ctx GLOBAL_SIZE_X (FixedVectorType (IntegerType 64) 3))
            (\<lambda>LoadInst. Inr (truncLanes 3 LoadInst (IntegerType 32) 0
                               (UndefValue (FixedVectorType (IntegerType 32) 3))))
        else getImplicitArg st F STAGE_IN_GRID_SIZE) (\<lambda>V.
     bind_err (getArgOperand CI 0) (\<lambda>dim. Inr (ExtractElement V dim)))"

definition getSyncBufferPtr ::
  "Context \<Rightarrow> WIFuncResolution \<Rightarrow> Function \<Rightarrow> CallInst \<Rightarrow> error + IRValue" where
  "getSyncBufferPtr ctx st F CI = getImplicitArg st F SYNC_BUFFER"

section \<open>The driver\<close>

text \<open>
  The callee names \<^verbatim>\<open>WIFuncsAnalysis::GET_...\<close>. The header that defines them is not among
  the sources; the strings are the names the handlers' comments show for the calls they
  receive, the two local ids without a comment named after the first.
\<close>

definition GET_LOCAL_ID_X :: string where "GET_LOCAL_ID_X = ''__builtin_IB_get_local_id_x''"
definition GET_LOCAL_ID_Y :: string where "GET_LOCAL_ID_Y = ''__builtin_IB_get_local_id_y''"
definition GET_LOCAL_ID_Z :: string where "GET_LOCAL_ID_Z = ''__builtin_IB_get_local_id_z''"
definition GET_GROUP_ID :: string where "GET_GROUP_ID = ''__builtin_IB_get_group_id''"
definition GET_LOCAL_THREAD_ID :: string where
  "GET_LOCAL_THREAD_ID = ''__builtin_IB_get_local_thread_id''"
definition GET_GLOBAL_SIZE :: string where "GET_GLOBAL_SIZE = ''__builtin_IB_get_global_size''"
definition GET_LOCAL_SIZE :: string where "GET_LOCAL_SIZE = ''__builtin_IB_get_local_size''"
definition GET_ENQUEUED_LOCAL_SIZE :: string where
  "GET_ENQUEUED_LOCAL_SIZE = ''__builtin_IB_get_enqueued_local_size''"
definition GET_GLOBAL_OFFSET :: string where
  "GET_GLOBAL_OFFSET = ''__builtin_IB_get_global_offset''"
definition GET_WORK_DIM :: string where "GET_WORK_DIM = ''__builtin_IB_get_work_dim''"
definition GET_NUM_GROUPS :: string where "GET_NUM_GROUPS = ''__builtin_IB_get_num_groups''"
definition GET_STAGE_IN_GRID_ORIGIN :: string where
  "GET_STAGE_IN_GRID_ORIGIN = ''__builtin_IB_get_grid_origin''"
definition GET_STAGE_IN_GRID_SIZE :: string where
  "GET_STAGE_IN_GRID_SIZE = ''__builtin_IB_get_grid_size''"
definition GET_SYNC_BUFFER :: string where "GET_SYNC_BUFFER = ''__builtin_IB_get_sync_buffer''"

text \<open>
  \<^verbatim>\<open>Value::replaceAllUsesWith\<close>, on one tree and on a function. The pass replaces the
  result of a call and a formal parameter only, so the replaced value is a leaf.
\<close>

fun replaceUses :: "IRValue \<Rightarrow> IRValue \<Rightarrow> IRValue \<Rightarrow> IRValue" where
  "replaceUses old new (Argument k t) = (if old = Argument k t then new else Argument k t)"
| "replaceUses old new (InstResult i t) = (if old = InstResult i t then new else InstResult i t)"
| "replaceUses old new (IntToPtr v t) = IntToPtr (replaceUses old new v) t"
| "replaceUses old new (BitCast v t) = BitCast (replaceUses old new v) t"
| "replaceUses old new (Load p a) = Load (replaceUses old new p) a"
| "replaceUses old new (ExtractElement v i) =
     ExtractElement (replaceUses old new v) (replaceUses old new i)"
| "replaceUses old new (InsertElement v x i) =
     InsertElement (replaceUses old new v) (replaceUses old new x) (replaceUses old new i)"
| "replaceUses old new (ZExt v t) = ZExt (replaceUses old new v) t"
| "replaceUses old new (Trunc v t) = Trunc (replaceUses old new v) t"
| "replaceUses old new (LShr a b) = LShr (replaceUses old new a) (replaceUses old new b)"
| "replaceUses old new (Mul a b) = Mul (replaceUses old new a) (replaceUses old new b)"
| "replaceUses old new (Add a b) = Add (replaceUses old new a) (replaceUses old new b)"
| "replaceUses old new (ICmp p a b) = ICmp p (replaceUses old new a) (replaceUses old new b)"
| "replaceUses old new (Select c a b) =
     Select (replaceUses old new c) (replaceUses old new a) (replaceUses old new b)"
| "replaceUses old new v = v"

fun replaceUsesInst :: "IRValue \<Rightarrow> IRValue \<Rightarrow> Instruction \<Rightarrow> Instruction" where
  "replaceUsesInst old new (Call CI) =
     Call (CI\<lparr>argOperands := map (replaceUses old new) (argOperands CI)\<rparr>)"
| "replaceUsesInst old new (Other v) = Other (replaceUses old new v)"

definition replaceAllUsesWith :: "IRValue \<Rightarrow> IRValue \<Rightarrow> Function \<Rightarrow> Function" where
  "replaceAllUsesWith old new F =
     F\<lparr>body := map (\<lambda>(i, ins). (i, replaceUsesInst old new ins)) (body F)\<rparr>"

definition eraseFromParent :: "nat \<Rightarrow> Function \<Rightarrow> Function" where
  "eraseFromParent i F = F\<lparr>body := filter (\<lambda>(j, ins). j \<noteq> i) (body F)\<rparr>"

text \<open>
  Lines 142 to 148 of \<^verbatim>\<open>visitCallInst\<close>, "Handle size_t return type for 64 bits": the
  zero-extension of a result narrower than the call.
\<close>

definition widthAdapt :: "CallInst \<Rightarrow> IRValue \<Rightarrow> IRValue" where
  "widthAdapt CI wiRes =
     (if getScalarSizeInBits (type_of wiRes) < getScalarSizeInBits (callType CI)
      then ZExt wiRes (IntegerType (getScalarSizeInBits (callType CI)))
      else wiRes)"

text \<open>
  Lines 81 to 140 of \<^verbatim>\<open>visitCallInst\<close>: the chain of name comparisons. \<^verbatim>\<open>None\<close> is the
  last branch, "Non WI function, do nothing"; otherwise the handler's result.
\<close>

definition dispatchWIFunc ::
  "Context \<Rightarrow> WIFuncResolution \<Rightarrow> Function \<Rightarrow> CallInst \<Rightarrow> string
     \<Rightarrow> (error + IRValue) option" where
  "dispatchWIFunc ctx st F CI funcName =
     (if funcName = GET_LOCAL_ID_X then Some (getLocalId ctx st F CI LOCAL_ID_X)
      else if funcName = GET_LOCAL_ID_Y then Some (getLocalId ctx st F CI LOCAL_ID_Y)
      else if funcName = GET_LOCAL_ID_Z then Some (getLocalId ctx st F CI LOCAL_ID_Z)
      else if funcName = GET_GROUP_ID then Some (getGroupId ctx st F CI)
      else if funcName = GET_LOCAL_THREAD_ID then Some (getLocalThreadId ctx st F CI)
      else if funcName = GET_GLOBAL_SIZE then Some (getGlobalSize ctx st F CI)
      else if funcName = GET_LOCAL_SIZE then Some (getLocalSize ctx st F CI)
      else if funcName = GET_ENQUEUED_LOCAL_SIZE then Some (getEnqueuedLocalSize ctx st F CI)
      else if funcName = GET_GLOBAL_OFFSET then Some (getGlobalOffset ctx st F CI)
      else if funcName = GET_WORK_DIM then Some (getWorkDim ctx st F CI)
      else if funcName = GET_NUM_GROUPS then Some (getNumGroups ctx st F CI)
      else if funcName = GET_STAGE_IN_GRID_ORIGIN then Some (getStageInGridOrigin ctx st F CI)
      else if funcName = GET_STAGE_IN_GRID_SIZE then Some (getStageInGridSize ctx st F CI)
      else if funcName = GET_SYNC_BUFFER then Some (getSyncBufferPtr ctx st F CI)
      else None)"

text \<open>
  \<^verbatim>\<open>visitCallInst\<close> on instruction \<open>i\<close> of \<open>F\<close>, the call \<open>CI\<close>. Every handler returns a
  value or fails, so the two tests \<^verbatim>\<open>if (wiRes)\<close> always pass.
\<close>

definition visitCallInst ::
  "Context \<Rightarrow> WIFuncResolution \<Rightarrow> Function \<Rightarrow> nat \<Rightarrow> CallInst
     \<Rightarrow> error + (WIFuncResolution \<times> Function)" where
  "visitCallInst ctx st F i CI =
     (case calledFunction CI of
        None \<Rightarrow> Inr (st, F)
      | Some funcName \<Rightarrow>
          (case dispatchWIFunc ctx st F CI funcName of
             None \<Rightarrow> Inr (st, F)
           | Some handled \<Rightarrow>
               bind_err handled (\<lambda>wiRes.
                 Inr (st\<lparr>m_changed := True\<rparr>,
                      eraseFromParent i
                        (replaceAllUsesWith (InstResult i (callType CI)) (widthAdapt CI wiRes) F)))))"

text \<open>
  \<^verbatim>\<open>visit(F)\<close>: the instructions of the function in their order; the numbers are taken
  before the first rewrite, each instruction is read from the function as it is by then.
\<close>

fun visitInsts ::
  "Context \<Rightarrow> WIFuncResolution \<Rightarrow> Function \<Rightarrow> nat list
     \<Rightarrow> error + (WIFuncResolution \<times> Function)" where
  "visitInsts ctx st F [] = Inr (st, F)"
| "visitInsts ctx st F (i # is) =
     (case map_of (body F) i of
        Some (Call CI) \<Rightarrow>
          bind_err (visitCallInst ctx st F i CI) (\<lambda>(st', F'). visitInsts ctx st' F' is)
      | _ \<Rightarrow> visitInsts ctx st F is)"

definition visit ::
  "Context \<Rightarrow> WIFuncResolution \<Rightarrow> Function \<Rightarrow> error + (WIFuncResolution \<times> Function)" where
  "visit ctx st F = visitInsts ctx st F (map fst (body F))"

definition getKnownWorkGroupSize :: "MetaData \<Rightarrow> Function \<Rightarrow> IRValue option" where
  "getKnownWorkGroupSize MDUtils F =
     (case threadGroupDims MDUtils of
        None \<Rightarrow> None
      | Some (x, y, z) \<Rightarrow> Some (ConstantDataVector [x, y, z]))"

text \<open>
  \<^verbatim>\<open>runOnFunction\<close>: the value returned, \<^verbatim>\<open>m_changed\<close>, and the function as the pass
  leaves it.
\<close>

definition runOnFunction :: "Context \<Rightarrow> MetaData \<Rightarrow> Function \<Rightarrow> error + (bool \<times> Function)" where
  "runOnFunction ctx MDUtils F =
     (let st = \<lparr>m_changed = False, m_implicitArgs = implicitArgs MDUtils\<rparr>
      in bind_err (visit ctx st F) (\<lambda>(st', F').
           let F'' =
             (case getKnownWorkGroupSize MDUtils F' of
                None \<Rightarrow> F'
              | Some KnownWorkGroupSize \<Rightarrow>
                  (case ImplicitArgs_getImplicitArg (m_implicitArgs st') F'
                          ENQUEUED_LOCAL_WORK_SIZE of
                     None \<Rightarrow> F'
                   | Some Arg \<Rightarrow> replaceAllUsesWith Arg KnownWorkGroupSize F'))
           in Inr (m_changed st', F'')))"

section \<open>Uses of a value\<close>

text \<open>
  \<^verbatim>\<open>occurs x v\<close>: the value \<open>x\<close> is \<open>v\<close> or an operand, at any depth, of \<open>v\<close>. A function
  has a use of \<open>x\<close> when \<open>x\<close> occurs in one of its instructions.
\<close>

fun occurs :: "IRValue \<Rightarrow> IRValue \<Rightarrow> bool" where
  "occurs x (IntToPtr v t) = (x = IntToPtr v t \<or> occurs x v)"
| "occurs x (BitCast v t) = (x = BitCast v t \<or> occurs x v)"
| "occurs x (Load p a) = (x = Load p a \<or> occurs x p)"
| "occurs x (ExtractElement v i) = (x = ExtractElement v i \<or> occurs x v \<or> occurs x i)"
| "occurs x (InsertElement v y i) =
     (x = InsertElement v y i \<or> occurs x v \<or> occurs x y \<or> occurs x i)"
| "occurs x (ZExt v t) = (x = ZExt v t \<or> occurs x v)"
| "occurs x (Trunc v t) = (x = Trunc v t \<or> occurs x v)"
| "occurs x (LShr a b) = (x = LShr a b \<or> occurs x a \<or> occurs x b)"
| "occurs x (Mul a b) = (x = Mul a b \<or> occurs x a \<or> occurs x b)"
| "occurs x (Add a b) = (x = Add a b \<or> occurs x a \<or> occurs x b)"
| "occurs x (ICmp p a b) = (x = ICmp p a b \<or> occurs x a \<or> occurs x b)"
| "occurs x (Select c a b) = (x = Select c a b \<or> occurs x c \<or> occurs x a \<or> occurs x b)"
| "occurs x v = (x = v)"

fun instUses :: "IRValue \<Rightarrow> Instruction \<Rightarrow> bool" where
  "instUses x (Call CI) = list_ex (occurs x) (argOperands CI)"
| "instUses x (Other v) = occurs x v"

definition hasUses :: "IRValue \<Rightarrow> Function \<Rightarrow> bool" where
  "hasUses x F = list_ex (\<lambda>(i, ins). instUses x ins) (body F)"

section \<open>The local-id address in the spec's words\<close>








section \<open>Example inputs\<close>

text \<open>
  Concrete inputs for the closed theorems below: a context whose address space A32 is
  number 5 with 32-bit pointers, a run-time environment over a given side buffer, and
  small functions and calls.
\<close>

definition ctx_ex :: Context where
  "ctx_ex = \<lparr>ADDRESS_SPACE_A32 = 5, pointerSizeInBits = (\<lambda>a. if a = 5 then 32 else 64),
              getGRFSize = 32\<rparr>"

definition env_ex :: "8 word list \<Rightarrow> env" where
  "env_ex bs = \<lparr>memory = (\<lambda>a p. if a = 5 \<and> p < length bs then bs ! p else 0),
                ptrBits = (\<lambda>a. if a = 5 then 32 else 64),
                simdSize = 16, r0 = [0, 0, 0, 0, 0, 0, 0, 0], simdLaneId = 0,
                argv = (\<lambda>_. None), instv = (\<lambda>_. None)\<rparr>"

definition st_ex :: WIFuncResolution where
  "st_ex = \<lparr>m_changed = False, m_implicitArgs = []\<rparr>"

definition CI_work_dim :: CallInst where
  "CI_work_dim = \<lparr>calledFunction = Some GET_WORK_DIM, argOperands = [], callType = IntegerType 32\<rparr>"

definition F_stack :: Function where
  "F_stack = \<lparr>arg_types = [], visaStackCall = True, body = [(0, Call CI_work_dim)]\<rparr>"



text \<open>
  Functions in ImplicitArgument mode. \<open>F_hidden\<close> has five formal parameters, the last
  three hidden, and \<open>F_short\<close> two, fewer than the three hidden arguments the state
  holds. \<open>F_lid64\<close> has the 16-bit hidden argument \<^verbatim>\<open>LOCAL_ID_X\<close> as its second parameter,
  a local-id query of 64 bits and an instruction that uses the query's result.
\<close>

definition st_hidden :: WIFuncResolution where
  "st_hidden = \<lparr>m_changed = False, m_implicitArgs = [R0, PAYLOAD_HEADER, WORK_DIM]\<rparr>"

definition F_hidden :: Function where
  "F_hidden = \<lparr>arg_types = [IntegerType 32, IntegerType 32,
                             FixedVectorType (IntegerType 32) 8,
                             FixedVectorType (IntegerType 32) 8, IntegerType 32],
               visaStackCall = False, body = []\<rparr>"

definition F_short :: Function where
  "F_short = \<lparr>arg_types = [IntegerType 32, IntegerType 32], visaStackCall = False, body = []\<rparr>"

definition st_lid :: WIFuncResolution where
  "st_lid = \<lparr>m_changed = False, m_implicitArgs = [LOCAL_ID_X]\<rparr>"

definition CI_local_id_x64 :: CallInst where
  "CI_local_id_x64 =
     \<lparr>calledFunction = Some GET_LOCAL_ID_X, argOperands = [], callType = IntegerType 64\<rparr>"

definition F_lid64 :: Function where
  "F_lid64 = \<lparr>arg_types = [IntegerType 32, IntegerType 16], visaStackCall = False,
              body = [(0, Call CI_local_id_x64),
                      (1, Other (Add (InstResult 0 (IntegerType 64)) (ConstantInt 64 1)))]\<rparr>"

definition env_arg :: "nat \<Rightarrow> rtval \<Rightarrow> env" where
  "env_arg k x = \<lparr>memory = (\<lambda>a p. 0), ptrBits = (\<lambda>a. 64), simdSize = 16,
                   r0 = [0, 0, 0, 0, 0, 0, 0, 0], simdLaneId = 0,
                   argv = (\<lambda>j. if j = k then Some x else None), instv = (\<lambda>_. None)\<rparr>"

text \<open>
  A group-id and a local-size query whose dimension is the first formal parameter, and a
  stage-in grid-origin and a sync-buffer query; \<open>F_stack_hidden\<close> carries the stack-call
  attribute and has hidden arguments all the same, \<open>F_stack_plain\<close> carries it and has
  its one visible parameter only.
\<close>

definition CI_dim :: "string \<Rightarrow> CallInst" where
  "CI_dim name = \<lparr>calledFunction = Some name, argOperands = [Argument 0 (IntegerType 32)],
                   callType = IntegerType 32\<rparr>"

definition st_stage :: WIFuncResolution where
  "st_stage = \<lparr>m_changed = False, m_implicitArgs = [STAGE_IN_GRID_ORIGIN, SYNC_BUFFER]\<rparr>"

definition F_stack_hidden :: Function where
  "F_stack_hidden = \<lparr>arg_types = [IntegerType 32, FixedVectorType (IntegerType 32) 3,
                                   PointerType (IntegerType 8) 1],
                     visaStackCall = True, body = []\<rparr>"

definition F_stack_plain :: Function where
  "F_stack_plain = \<lparr>arg_types = [IntegerType 32], visaStackCall = True, body = []\<rparr>"

definition env_r0 :: "nat \<Rightarrow> env" where
  "env_r0 d = \<lparr>memory = (\<lambda>a p. 0), ptrBits = (\<lambda>a. 64), simdSize = 16,
                r0 = [10, 11, 12, 13, 14, 15, 16, 17], simdLaneId = 0,
                argv = (\<lambda>j. if j = 0 then Some (IntV 32 d) else None), instv = (\<lambda>_. None)\<rparr>"

text \<open>
  Functions with the hidden argument \<^verbatim>\<open>ENQUEUED_LOCAL_WORK_SIZE\<close> as their second
  parameter. \<open>F_enq\<close> has an enqueued-local-size query and a use of its result beside a
  direct use of the argument; \<open>F_enq_forward\<close> passes the argument on to a function
  that is no work-item query and has no other instruction.
  \<open>md_known\<close> gives the group dimensions (8, 1, 1), \<open>md_unknown\<close> none.
\<close>

definition md_known :: MetaData where
  "md_known = \<lparr>implicitArgs = [ENQUEUED_LOCAL_WORK_SIZE], threadGroupDims = Some (8, 1, 1)\<rparr>"

definition md_unknown :: MetaData where
  "md_unknown = \<lparr>implicitArgs = [ENQUEUED_LOCAL_WORK_SIZE], threadGroupDims = None\<rparr>"

definition enq_arg :: IRValue where
  "enq_arg = Argument 1 (FixedVectorType (IntegerType 32) 3)"

definition F_enq :: Function where
  "F_enq = \<lparr>arg_types = [IntegerType 32, FixedVectorType (IntegerType 32) 3],
            visaStackCall = False,
            body = [(0, Call (CI_dim GET_ENQUEUED_LOCAL_SIZE)),
                    (1, Other (Add (InstResult 0 (IntegerType 32))
                                   (ExtractElement enq_arg (ConstantInt 32 1))))]\<rparr>"

definition CI_forward :: "IRValue \<Rightarrow> CallInst" where
  "CI_forward x = \<lparr>calledFunction = Some ''helper'', argOperands = [x],
                     callType = IntegerType 32\<rparr>"

definition F_enq_forward :: Function where
  "F_enq_forward = \<lparr>arg_types = [IntegerType 32, FixedVectorType (IntegerType 32) 3],
                    visaStackCall = False,
                    body = [(0, Call (CI_forward enq_arg))]\<rparr>"

section \<open>Auxiliary facts\<close>

lemma length_nat_le [simp]: "length (nat_le k n) = k"
  by (induction k arbitrary: n) auto

lemma le_nat_lt: "le_nat bs < 256 ^ length bs"
proof (induction bs)
  case Nil show ?case by simp
next
  case (Cons b bs)
  have "unat b < 256" using unsigned_less [of b, where ?'a = nat] by simp
  with Cons show ?case by simp
qed

lemma le_nat_nat_le: "le_nat (nat_le k n) = n mod 256 ^ k"
proof (induction k arbitrary: n)
  case 0 show ?case by simp
next
  case (Suc k)
  have "unat (of_nat (n mod 256) :: 8 word) = n mod 256"
    by (simp add: unat_of_nat)
  with Suc show ?case
    by (simp add: mod_mult2_eq)
qed

lemma nat_le_le_nat: "nat_le (length bs) (le_nat bs) = bs"
proof (induction bs)
  case Nil show ?case by simp
next
  case (Cons b bs)
  have b: "unat b < 256" using unsigned_less [of b, where ?'a = nat] by simp
  then have "(unat b + 256 * le_nat bs) mod 256 = unat b"
    and "(unat b + 256 * le_nat bs) div 256 = le_nat bs" by simp_all
  with Cons show ?case by simp
qed

lemmas layout_defs = NUM_WORK_DIM_def VERSION_def STRUCT_SIZE_def SIMDSIZE_def LOCAL_SIZES_def LOCAL_SIZE_X_def LOCAL_SIZE_Y_def
    LOCAL_SIZE_Z_def GLOBAL_SIZES_def GLOBAL_SIZE_X_def GLOBAL_SIZE_Y_def GLOBAL_SIZE_Z_def PRINTF_BUFFER_def GLOBAL_OFFSETS_def
    GLOBAL_OFFSET_X_def GLOBAL_OFFSET_Y_def GLOBAL_OFFSET_Z_def LOCAL_IDS_def GROUP_COUNTS_def GROUP_COUNT_X_def GROUP_COUNT_Y_def GROUP_COUNT_Z_def
    sizeof_uint8_t_def sizeof_uint32_t_def sizeof_uint64_t_def

lemmas builder_defs = getIntN_def CreateIntToPtr_def CreateBitCast_def CreateZExt_def CreateTrunc_def
  CreateZExtOrBitCast_def CreateExtractElement_def CreateInsertElement_def CreateLShr_def ConstantInt_get_def

lemma layout_values:
  "NUM_WORK_DIM = 2" "SIMDSIZE = 3" "LOCAL_SIZE_X = 4" "GLOBAL_SIZE_X = 16" "GLOBAL_OFFSET_X = 48"
  "LOCAL_IDS = 72" "GROUP_COUNT_X = 80"
  by (simp_all add: layout_defs)

lemma BuildLoadInst_aligned_scalar:
  assumes "0 < k" "Offset mod k = 0"
  shows "BuildLoadInst ctx Offset (IntegerType (8 * k)) =
     Inr (BitCast (Load (BitCast (IntToPtr (ConstantInt (pointerSizeInBits ctx (ADDRESS_SPACE_A32 ctx)) Offset)
                                    (PointerType (IntegerType 32) (ADDRESS_SPACE_A32 ctx)))
                           (PointerType (FixedVectorType (IntegerType (8 * k)) 1) (ADDRESS_SPACE_A32 ctx)))
                    (Some k)) (IntegerType (8 * k)))"
  using assms by (auto simp add: BuildLoadInst_def getScalarSizeInBits_def Let_def builder_defs)

lemma eval_load_scalar:
  assumes "0 < k" "p < 2 ^ N" "p < 2 ^ ptrBits e a"
  shows "eval e (BitCast (Load (BitCast (IntToPtr (ConstantInt N p) (PointerType t0 a))
                           (PointerType (FixedVectorType (IntegerType (8 * k)) 1) a)) al) (IntegerType (8 * k)))
         = Some (IntV (8 * k) (le_nat (load_bytes e a p k)))"
proof -
  have len: "length (load_bytes e a p k) = k" by (simp add: load_bytes_def)
  have lt: "le_nat (load_bytes e a p k) < 256 ^ k" using le_nat_lt [of "load_bytes e a p k"] len by simp
  show ?thesis using assms len lt
    by (simp add: le_nat_nat_le)
qed

lemma type_of_copyLoop: "type_of (copyLoop n s off al i v) = type_of v"
  by (induction n arbitrary: i v) (simp_all add: CreateInsertElement_def)

lemma copyLoop_Suc_is_insert:
  "\<exists>a b c. copyLoop (Suc n) s off al i v = InsertElement a b c"
  by (induction n arbitrary: i v) (simp_all add: CreateInsertElement_def)

lemma BuildLoadInst_misaligned_scalar:
  assumes "0 < k" "Offset mod k \<noteq> 0" "2 * k < 2 ^ 32"
  shows "\<exists>a b c. BuildLoadInst ctx Offset (IntegerType (8 * k)) =
           Inr (BitCast (InsertElement a b c) (IntegerType (8 * k)))"
proof -
  obtain n where n: "k = Suc n" using assms(1) by (cases k) auto
  have ne: "Offset \<noteq> Offset div k * k" using assms(2) by (metis mod_mult_self1_is_0 mult.commute)
  obtain a b c where abc: "copyLoop k (CreateBitCast (Load (CreateBitCast (CreateIntToPtr
        (getIntN (pointerSizeInBits ctx (ADDRESS_SPACE_A32 ctx)) (Offset div k * k))
        (PointerType (IntegerType 32) (ADDRESS_SPACE_A32 ctx)))
        (PointerType (FixedVectorType (IntegerType (8 * k)) (2 * k div k)) (ADDRESS_SPACE_A32 ctx))) (Some k)) (IntegerType 8))
        Offset (Offset div k * k) Offset (UndefValue (FixedVectorType (IntegerType 8) k)) = InsertElement a b c"
    using copyLoop_Suc_is_insert n by blast
  have "type_of (InsertElement a b c) = FixedVectorType (IntegerType 8) k"
    using arg_cong [OF abc, of type_of] by (simp add: type_of_copyLoop)
  then have ty: "type_of a = FixedVectorType (IntegerType 8) k" by simp
  show ?thesis using assms ne abc ty
    by (simp add: BuildLoadInst_def getScalarSizeInBits_def Let_def CreateBitCast_def [of "InsertElement a b c"]
        del: copyLoop.simps)
qed

subsection \<open>The field loader\<close>

lemma verify_copyLoop_acc: "\<not> verify v \<Longrightarrow> \<not> verify (copyLoop n s off al i v)"
  by (induction n arbitrary: i v) (simp_all add: CreateInsertElement_def)

lemma verify_copyLoop_src: "0 < n \<Longrightarrow> \<not> verify s \<Longrightarrow> \<not> verify (copyLoop n s off al i v)"
  by (cases n) (simp_all add: verify_copyLoop_acc CreateInsertElement_def CreateExtractElement_def)

lemma eval_copyLoop_acc: "eval e v = None \<Longrightarrow> eval e (copyLoop n s off al i v) = None"
  by (induction n arbitrary: i v) (simp_all add: CreateInsertElement_def)

lemma eval_copyLoop_src:
  assumes "0 < n" and s: "eval e s = None"
  shows "eval e (copyLoop n s off al i v) = None"
proof -
  have "eval e (CreateInsertElement v (CreateExtractElement s x) y) = None" for x y
    by (cases "eval e v") (simp_all add: s CreateInsertElement_def CreateExtractElement_def)
  then show ?thesis using assms(1) by (cases n) (simp_all add: eval_copyLoop_acc)
qed

lemma BuildLoadInst_misaligned_shape:
  assumes "0 < k" "Offset mod k \<noteq> 0" "2 * k < 2 ^ 32"
  shows "BuildLoadInst ctx Offset (IntegerType (8 * k)) =
     Inr (BitCast
            (copyLoop k
               (BitCast
                  (Load (BitCast (IntToPtr (ConstantInt (pointerSizeInBits ctx (ADDRESS_SPACE_A32 ctx))
                                              (Offset div k * k))
                                    (PointerType (IntegerType 32) (ADDRESS_SPACE_A32 ctx)))
                           (PointerType (FixedVectorType (IntegerType (8 * k)) 2)
                              (ADDRESS_SPACE_A32 ctx)))
                     (Some k))
                  (IntegerType 8))
               Offset (Offset div k * k) Offset (UndefValue (FixedVectorType (IntegerType 8) k)))
            (IntegerType (8 * k)))"
proof -
  have ne: "Offset \<noteq> Offset div k * k" using assms(2) by (metis mod_mult_self1_is_0 mult.commute)
  show ?thesis using assms ne
    by (simp add: BuildLoadInst_def getScalarSizeInBits_def Let_def CreateBitCast_def CreateIntToPtr_def getIntN_def
        type_of_copyLoop del: copyLoop.simps)
qed

lemma length_concat_nat_le: "length (concat (map (\<lambda>x. nat_le k (f x)) xs)) = k * length xs"
  by (induction xs) simp_all

lemma bitcast_to_byte_None:
  assumes "0 < k"
  shows "eval e (BitCast (Load (BitCast p (PointerType (FixedVectorType (IntegerType (8 * k)) 2) a)) al)
                   (IntegerType 8)) = None"
proof (cases "eval e p")
  case None then show ?thesis by simp
next
  case (Some x)
  show ?thesis
  proof (cases x)
    case (PtrV a' q)
    then show ?thesis using Some assms
      by (cases "a' = a") (simp_all add: load_bytes_def comp_def length_concat_nat_le)
  qed (simp_all add: Some)
qed


lemma BuildLoadInst_misaligned_scalar_broken:
  assumes "0 < k" "Offset mod k \<noteq> 0" "2 * k < 2 ^ 32"
  shows "\<exists>v. BuildLoadInst ctx Offset (IntegerType (8 * k)) = Inr v \<and> \<not> verify v \<and> eval e v = None"
proof -
  let ?B = "BitCast
                  (Load (BitCast (IntToPtr (ConstantInt (pointerSizeInBits ctx (ADDRESS_SPACE_A32 ctx))
                                              (Offset div k * k))
                                    (PointerType (IntegerType 32) (ADDRESS_SPACE_A32 ctx)))
                           (PointerType (FixedVectorType (IntegerType (8 * k)) 2)
                              (ADDRESS_SPACE_A32 ctx)))
                     (Some k))
                  (IntegerType 8)"
  have nv: "\<not> verify ?B" using assms(1) by (simp add: castIsValid_BitCast_def)
  have ne: "eval e ?B = None" by (rule bitcast_to_byte_None [OF assms(1)])
  have "\<not> verify (copyLoop k ?B Offset (Offset div k * k) Offset (UndefValue (FixedVectorType (IntegerType 8) k)))"
    by (rule verify_copyLoop_src [OF assms(1) nv])
  moreover have "eval e (copyLoop k ?B Offset (Offset div k * k) Offset (UndefValue (FixedVectorType (IntegerType 8) k))) = None"
    by (rule eval_copyLoop_src [OF assms(1) ne])
  ultimately show ?thesis
    using BuildLoadInst_misaligned_shape [OF assms, of ctx] by simp
qed

lemma concat_chunks:
  "length bs = n * k \<Longrightarrow> concat (map (\<lambda>j. take k (drop (j * k) bs)) [0..<n]) = bs"
proof (induction n arbitrary: bs)
  case 0 then show ?case by simp
next
  case (Suc n)
  have len: "length (drop k bs) = n * k" using Suc.prems by simp
  have "[0..<Suc n] = 0 # map Suc [0..<n]"
    by (simp add: upt_conv_Cons map_Suc_upt del: upt_Suc)
  then have "concat (map (\<lambda>j. take k (drop (j * k) bs)) [0..<Suc n]) =
        take k bs @ concat (map (\<lambda>j. take k (drop (j * k) (drop k bs))) [0..<n])"
    by (simp add: comp_def add.commute del: upt_Suc)
  also have "\<dots> = take k bs @ drop k bs" using Suc.IH [OF len] by simp
  finally show ?case by simp
qed

lemma BuildLoadInst_aligned_vector:
  assumes "0 < k" "Offset mod k = 0" "0 < n" "k * n < 2 ^ 32"
  shows "BuildLoadInst ctx Offset (FixedVectorType (IntegerType (8 * k)) n) =
     Inr (Load (BitCast (IntToPtr (ConstantInt (pointerSizeInBits ctx (ADDRESS_SPACE_A32 ctx)) Offset)
                                    (PointerType (IntegerType 32) (ADDRESS_SPACE_A32 ctx)))
                           (PointerType (FixedVectorType (IntegerType (8 * k)) n) (ADDRESS_SPACE_A32 ctx)))
                    (Some k))"
  using assms by (auto simp add: BuildLoadInst_def getScalarSizeInBits_def Let_def builder_defs)

lemma eval_load_vector:
  assumes "0 < k" "p < 2 ^ N" "p < 2 ^ ptrBits e a"
  shows "eval e (Load (BitCast (IntToPtr (ConstantInt N p) (PointerType t0 a))
                           (PointerType (FixedVectorType (IntegerType (8 * k)) n) a)) al)
         = Some (VecV (8 * k) (map (\<lambda>j. Some (le_nat (take k (drop (j * k) (load_bytes e a p (n * k))))))
                                 [0..<n]))"
  using assms by (simp add: load_bytes_def mult.commute)

lemma bytes_of_loaded_vector:
  assumes "0 < k" "length bs = n * k"
  shows "bytes_of_val (VecV (8 * k) (map (\<lambda>j. Some (le_nat (take k (drop (j * k) bs)))) [0..<n])) = Some bs"
proof -
  have "nat_le k (le_nat (take k (drop (j * k) bs))) = take k (drop (j * k) bs)" if "j < n" for j
  proof -
    have "(j + 1) * k \<le> n * k" using that by (intro mult_le_mono1) simp
    then have "length (take k (drop (j * k) bs)) = k" using assms(2) by simp
    then show ?thesis using nat_le_le_nat [of "take k (drop (j * k) bs)"] by simp
  qed
  then have m: "map (\<lambda>j. nat_le k (le_nat (take k (drop (j * k) bs)))) [0..<n] =
             map (\<lambda>j. take k (drop (j * k) bs)) [0..<n]"
    by (intro map_cong) auto
  have "concat (map (\<lambda>j. nat_le k (le_nat (take k (drop (j * k) bs)))) [0..<n]) = bs"
    unfolding m by (rule concat_chunks [OF assms(2)])
  then show ?thesis using assms(1)
    by (simp add: comp_def list_all_iff)
qed

lemma BuildLoadInst_aligned_roundtrip_scalar:
  assumes "0 < k" "Offset mod k = 0"
    "Offset < 2 ^ pointerSizeInBits ctx (ADDRESS_SPACE_A32 ctx)"
    "Offset < 2 ^ ptrBits e (ADDRESS_SPACE_A32 ctx)"
  shows "\<exists>v x. BuildLoadInst ctx Offset (IntegerType (8 * k)) = Inr v \<and> verify v \<and>
           eval e v = Some x \<and>
           bytes_of_val x = Some (load_bytes e (ADDRESS_SPACE_A32 ctx) Offset k)"
proof -
  let ?bs = "load_bytes e (ADDRESS_SPACE_A32 ctx) Offset k"
  have len: "length ?bs = k" by (simp add: load_bytes_def)
  have "bytes_of_val (IntV (8 * k) (le_nat ?bs)) = Some ?bs"
    using nat_le_le_nat [of ?bs] len by simp
  moreover have "verify (BitCast (Load (BitCast (IntToPtr (ConstantInt (pointerSizeInBits ctx (ADDRESS_SPACE_A32 ctx)) Offset)
                                    (PointerType (IntegerType 32) (ADDRESS_SPACE_A32 ctx)))
                           (PointerType (FixedVectorType (IntegerType (8 * k)) 1) (ADDRESS_SPACE_A32 ctx)))
                    (Some k)) (IntegerType (8 * k)))"
    by (simp add: castIsValid_BitCast_def)
  ultimately show ?thesis
    using BuildLoadInst_aligned_scalar [OF assms(1,2), of ctx] eval_load_scalar [OF assms(1,3,4)]
    by simp
qed

lemma BuildLoadInst_aligned_roundtrip_vector:
  assumes "0 < k" "Offset mod k = 0" "0 < n" "k * n < 2 ^ 32"
    "Offset < 2 ^ pointerSizeInBits ctx (ADDRESS_SPACE_A32 ctx)"
    "Offset < 2 ^ ptrBits e (ADDRESS_SPACE_A32 ctx)"
  shows "\<exists>v x. BuildLoadInst ctx Offset (FixedVectorType (IntegerType (8 * k)) n) = Inr v \<and> verify v \<and>
           eval e v = Some x \<and>
           bytes_of_val x = Some (load_bytes e (ADDRESS_SPACE_A32 ctx) Offset (n * k))"
proof -
  let ?bs = "load_bytes e (ADDRESS_SPACE_A32 ctx) Offset (n * k)"
  have len: "length ?bs = n * k" by (simp add: load_bytes_def)
  have "verify (Load (BitCast (IntToPtr (ConstantInt (pointerSizeInBits ctx (ADDRESS_SPACE_A32 ctx)) Offset)
                                    (PointerType (IntegerType 32) (ADDRESS_SPACE_A32 ctx)))
                           (PointerType (FixedVectorType (IntegerType (8 * k)) n) (ADDRESS_SPACE_A32 ctx)))
                    (Some k))"
    by (simp add: castIsValid_BitCast_def)
  then show ?thesis
    using BuildLoadInst_aligned_vector [OF assms(1,2,3,4), of ctx] eval_load_vector [OF assms(1,5,6), of _ n]
      bytes_of_loaded_vector [OF assms(1) len]
    by simp
qed

subsection \<open>Evaluation rules and the local-id address\<close>









subsection \<open>Hidden arguments and uses\<close>

lemma getArgIndex_less: "t \<in> set ia \<Longrightarrow> getArgIndex ia t < length ia"
  by (induction ia) auto

lemma getImplicitArg_marker:
  "getImplicitArg st (F\<lparr>visaStackCall := b\<rparr>) t = getImplicitArg st F t"
  by (simp add: getImplicitArg_def arg_size_def Let_def)

subsection \<open>The visit and the per-function entry point\<close>

lemma arg_types_replaceAllUsesWith [simp]:
  "arg_types (replaceAllUsesWith old new F) = arg_types F"
  by (simp add: replaceAllUsesWith_def)

lemma arg_types_eraseFromParent [simp]: "arg_types (eraseFromParent i F) = arg_types F"
  by (simp add: eraseFromParent_def)

lemma visitCallInst_preserves:
  assumes "visitCallInst ctx st F i CI = Inr (st', F')"
  shows "m_implicitArgs st' = m_implicitArgs st \<and> arg_types F' = arg_types F"
proof (cases "calledFunction CI")
  case None
  then show ?thesis using assms by (simp add: visitCallInst_def)
next
  case (Some funcName)
  show ?thesis
  proof (cases "dispatchWIFunc ctx st F CI funcName")
    case None
    then show ?thesis using assms Some by (simp add: visitCallInst_def)
  next
    case handled: (Some h)
    show ?thesis
    proof (cases h)
      case (Inl err)
      then show ?thesis using assms Some handled by (simp add: visitCallInst_def)
    next
      case (Inr wiRes)
      then show ?thesis using assms Some handled by (auto simp add: visitCallInst_def)
    qed
  qed
qed

lemma visitInsts_preserves:
  "visitInsts ctx st F is = Inr (st', F') \<Longrightarrow>
   m_implicitArgs st' = m_implicitArgs st \<and> arg_types F' = arg_types F"
proof (induction "is" arbitrary: st F)
  case Nil
  then show ?case by simp
next
  case (Cons i "is")
  show ?case
  proof (cases "map_of (body F) i")
    case None
    then show ?thesis using Cons by simp
  next
    case (Some ins)
    show ?thesis
    proof (cases ins)
      case (Other v)
      then show ?thesis using Cons Some by simp
    next
      case (Call CI)
      show ?thesis
      proof (cases "visitCallInst ctx st F i CI")
        case (Inl err)
        then show ?thesis using Cons.prems Some Call by simp
      next
        case (Inr p)
        obtain st1 F1 where p: "p = (st1, F1)" by (cases p)
        have v: "visitInsts ctx st1 F1 is = Inr (st', F')"
          using Cons.prems Some Call Inr p by simp
        show ?thesis
          using Cons.IH [OF v] visitCallInst_preserves [of ctx st F i CI st1 F1] Inr p by simp
      qed
    qed
  qed
qed

lemma visit_preserves:
  "visit ctx st F = Inr (st', F') \<Longrightarrow>
   m_implicitArgs st' = m_implicitArgs st \<and> arg_types F' = arg_types F"
  unfolding visit_def by (rule visitInsts_preserves)

lemma ImplicitArgs_getImplicitArg_cong:
  "arg_types F' = arg_types F \<Longrightarrow>
   ImplicitArgs_getImplicitArg ia F' t = ImplicitArgs_getImplicitArg ia F t"
  by (simp add: ImplicitArgs_getImplicitArg_def arg_size_def Let_def)

lemma ImplicitArgs_getImplicitArg_is_Argument:
  "ImplicitArgs_getImplicitArg ia F t = Some a \<Longrightarrow> \<exists>k ty. a = Argument k ty"
  by (auto simp add: ImplicitArgs_getImplicitArg_def Let_def split: if_splits)

lemma occurs_replaceUses:
  "\<not> occurs (Argument k ty) new \<Longrightarrow> \<not> occurs (Argument k ty) (replaceUses (Argument k ty) new v)"
proof (induction v)
  case (Argument x1 x2a)
  then show ?case by auto
qed simp_all

lemma hasUses_replaceAllUsesWith:
  assumes "\<not> occurs (Argument k ty) new"
  shows "\<not> hasUses (Argument k ty) (replaceAllUsesWith (Argument k ty) new F)"
proof -
  have "\<not> instUses (Argument k ty) (replaceUsesInst (Argument k ty) new ins)" for ins
    using occurs_replaceUses [OF assms] by (cases ins) (simp_all add: list_ex_iff)
  then show ?thesis
    by (auto simp add: hasUses_def replaceAllUsesWith_def list_ex_iff)
qed


lemma runOnFunction_after_visit:
  assumes "visit ctx \<lparr>m_changed = False, m_implicitArgs = implicitArgs MDUtils\<rparr> F = Inr (st', F')"
  shows "runOnFunction ctx MDUtils F =
     Inr (m_changed st',
          case getKnownWorkGroupSize MDUtils F' of
            None \<Rightarrow> F'
          | Some KnownWorkGroupSize \<Rightarrow>
              (case ImplicitArgs_getImplicitArg (implicitArgs MDUtils) F ENQUEUED_LOCAL_WORK_SIZE of
                 None \<Rightarrow> F'
               | Some Arg \<Rightarrow> replaceAllUsesWith Arg KnownWorkGroupSize F'))"
proof -
  have p: "m_implicitArgs st' = implicitArgs MDUtils" "arg_types F' = arg_types F"
    using visit_preserves [OF assms] by simp_all
  have g: "ImplicitArgs_getImplicitArg (m_implicitArgs st') F' ENQUEUED_LOCAL_WORK_SIZE =
           ImplicitArgs_getImplicitArg (implicitArgs MDUtils) F ENQUEUED_LOCAL_WORK_SIZE"
    unfolding p(1) by (rule ImplicitArgs_getImplicitArg_cong [OF p(2)])
  show ?thesis
    unfolding runOnFunction_def Let_def assms bind_err.simps prod.case g ..
qed


lemmas name_defs = GET_LOCAL_ID_X_def GET_LOCAL_ID_Y_def GET_LOCAL_ID_Z_def GET_GROUP_ID_def
  GET_LOCAL_THREAD_ID_def GET_GLOBAL_SIZE_def GET_LOCAL_SIZE_def GET_ENQUEUED_LOCAL_SIZE_def
  GET_GLOBAL_OFFSET_def GET_WORK_DIM_def GET_NUM_GROUPS_def GET_STAGE_IN_GRID_ORIGIN_def
  GET_STAGE_IN_GRID_SIZE_def GET_SYNC_BUFFER_def

lemma dispatch_F_enq:
  "dispatchWIFunc ctx_ex \<lparr>m_changed = False, m_implicitArgs = [ENQUEUED_LOCAL_WORK_SIZE]\<rparr> F_enq
     (CI_dim GET_ENQUEUED_LOCAL_SIZE) GET_ENQUEUED_LOCAL_SIZE =
   Some (Inr (ExtractElement enq_arg (Argument 0 (IntegerType 32))))"
  by (simp add: dispatchWIFunc_def name_defs getEnqueuedLocalSize_def hasStackCallAttr_def
      F_enq_def getImplicitArg_def IGC_ASSERT_MESSAGE_def arg_size_def getArgOperand_def
      CI_dim_def enq_arg_def)

lemma visit_F_enq:
  "visit ctx_ex \<lparr>m_changed = False, m_implicitArgs = [ENQUEUED_LOCAL_WORK_SIZE]\<rparr> F_enq =
   Inr (\<lparr>m_changed = True, m_implicitArgs = [ENQUEUED_LOCAL_WORK_SIZE]\<rparr>,
        F_enq\<lparr>body := [(1, Other (Add (ExtractElement enq_arg (Argument 0 (IntegerType 32)))
                                        (ExtractElement enq_arg (ConstantInt 32 1))))]\<rparr>)"
proof -
  have b: "body F_enq = [(0, Call (CI_dim GET_ENQUEUED_LOCAL_SIZE)),
                    (1, Other (Add (InstResult 0 (IntegerType 32))
                                   (ExtractElement enq_arg (ConstantInt 32 1))))]"
    by (simp add: F_enq_def)
  have c: "calledFunction (CI_dim GET_ENQUEUED_LOCAL_SIZE) = Some GET_ENQUEUED_LOCAL_SIZE"
    "callType (CI_dim GET_ENQUEUED_LOCAL_SIZE) = IntegerType 32"
    by (simp_all add: CI_dim_def)
  have v: "visitCallInst ctx_ex \<lparr>m_changed = False, m_implicitArgs = [ENQUEUED_LOCAL_WORK_SIZE]\<rparr>
             F_enq 0 (CI_dim GET_ENQUEUED_LOCAL_SIZE) =
           Inr (\<lparr>m_changed = True, m_implicitArgs = [ENQUEUED_LOCAL_WORK_SIZE]\<rparr>,
        F_enq\<lparr>body := [(1, Other (Add (ExtractElement enq_arg (Argument 0 (IntegerType 32)))
                                        (ExtractElement enq_arg (ConstantInt 32 1))))]\<rparr>)"
    by (simp add: visitCallInst_def c dispatch_F_enq eraseFromParent_def replaceAllUsesWith_def b
        enq_arg_def widthAdapt_def getScalarSizeInBits_def)
  show ?thesis
    by (simp add: visit_def b v)
qed

lemma visit_F_enq_forward:
  "visit ctx_ex \<lparr>m_changed = False, m_implicitArgs = [ENQUEUED_LOCAL_WORK_SIZE]\<rparr> F_enq_forward =
   Inr (\<lparr>m_changed = False, m_implicitArgs = [ENQUEUED_LOCAL_WORK_SIZE]\<rparr>, F_enq_forward)"
  by (simp add: visit_def F_enq_forward_def visitCallInst_def CI_forward_def dispatchWIFunc_def
      name_defs)

lemma enq_arg_present:
  "ImplicitArgs_getImplicitArg [ENQUEUED_LOCAL_WORK_SIZE] F_enq ENQUEUED_LOCAL_WORK_SIZE = Some enq_arg"
  "ImplicitArgs_getImplicitArg [ENQUEUED_LOCAL_WORK_SIZE] F_enq_forward ENQUEUED_LOCAL_WORK_SIZE =
     Some enq_arg"
  by (simp_all add: ImplicitArgs_getImplicitArg_def F_enq_def F_enq_forward_def arg_size_def
      enq_arg_def)

section \<open>C1: the work-dimension query in IndirectStack mode\<close>

text \<open>
  What the pass emits for the work-dimension query in a function that carries the
  stack-call attribute: one 32-bit field load at byte offset \<open>NUM_WORK_DIM / 4 = 0\<close> of
  the side buffer (the source divides the field's offset by 4), on the aligned path of
  the field loader, followed by a logical shift right by 24 bits. For the raw word
  \<open>0x05000000\<close> the value is 5.
\<close>

lemma getWorkDim_IndirectStack_lowering:
  assumes "hasStackCallAttr F"
  shows "let A = ADDRESS_SPACE_A32 ctx;
             L = BitCast (Load (BitCast (IntToPtr (ConstantInt (pointerSizeInBits ctx A) (NUM_WORK_DIM div 4))
                                           (PointerType (IntegerType 32) A))
                                  (PointerType (FixedVectorType (IntegerType 32) 1) A)) (Some 4))
                   (IntegerType 32);
             w = le_nat (load_bytes e A (NUM_WORK_DIM div 4) 4)
         in NUM_WORK_DIM div 4 = 0 \<and>
            getWorkDim ctx st F CI = Inr (LShr L (ConstantInt 32 24)) \<and>
            eval e (LShr L (ConstantInt 32 24)) = Some (IntV 32 (w div 2 ^ 24)) \<and>
            (w = 0x05000000 \<longrightarrow> eval e (LShr L (ConstantInt 32 24)) = Some (IntV 32 5))"
proof -
  have off: "NUM_WORK_DIM div 4 = 0" by (simp add: layout_values)
  have b: "BuildLoadInst ctx 0 (IntegerType 32) =
     Inr (BitCast (Load (BitCast (IntToPtr (ConstantInt (pointerSizeInBits ctx (ADDRESS_SPACE_A32 ctx)) 0)
                                    (PointerType (IntegerType 32) (ADDRESS_SPACE_A32 ctx)))
                           (PointerType (FixedVectorType (IntegerType 32) 1) (ADDRESS_SPACE_A32 ctx)))
                    (Some 4)) (IntegerType 32))"
    using BuildLoadInst_aligned_scalar [of 4 0 ctx] by simp
  define A where "A = ADDRESS_SPACE_A32 ctx"
  define L where "L = BitCast (Load (BitCast (IntToPtr (ConstantInt (pointerSizeInBits ctx A) 0)
                                           (PointerType (IntegerType 32) A))
                                  (PointerType (FixedVectorType (IntegerType 32) 1) A)) (Some 4))
                   (IntegerType 32)"
  define w where "w = le_nat (load_bytes e A 0 4)"
  have evL: "eval e L = Some (IntV 32 w)"
    unfolding L_def w_def using eval_load_scalar [of 4 0 _ e A] by simp
  have ev: "eval e (LShr L (ConstantInt 32 24)) = Some (IntV 32 (w div 2 ^ 24))"
    by (simp add: evL)
  have g: "getWorkDim ctx st F CI = Inr (LShr L (ConstantInt 32 24))"
    using assms by (simp add: getWorkDim_def off b L_def A_def CreateLShr_def ConstantInt_get_def
        getScalarSizeInBits_def)
  have five: "w = 0x05000000 \<longrightarrow> eval e (LShr L (ConstantInt 32 24)) = Some (IntV 32 5)"
    using ev by simp
  show ?thesis
    unfolding Let_def off using g ev five off
    unfolding L_def w_def A_def by simp
qed

text \<open>
  The shift by 24 bits leaves the top byte of the word at offset 0, which is byte 3 of
  the side buffer: the field \<open>SIMDSIZE\<close> of the layout, not \<open>NUM_WORK_DIM\<close>, which is
  byte 2. So for every side buffer the query returns the SIMD width.
\<close>

lemma top_byte_of_word:
  "le_nat [b0, b1, b2, b3] div 2 ^ 24 = unat b3"
proof -
  have "unat b0 < 256" "unat b1 < 256" "unat b2 < 256"
    using unsigned_less [of b0, where ?'a = nat] unsigned_less [of b1, where ?'a = nat]
      unsigned_less [of b2, where ?'a = nat] by simp_all
  then show ?thesis by simp
qed

lemma load_bytes_4:
  "load_bytes e a 0 4 = [memory e a 0, memory e a 1, memory e a 2, memory e a 3]"
  by (simp add: load_bytes_def upt_rec numeral_2_eq_2 numeral_3_eq_3)

lemma getWorkDim_IndirectStack_value:
  assumes "hasStackCallAttr F"
  shows "\<exists>v. getWorkDim ctx st F CI = Inr v \<and>
             eval e v = Some (IntV 32 (unat (memory e (ADDRESS_SPACE_A32 ctx) SIMDSIZE)))"
proof -
  have b: "BuildLoadInst ctx 0 (IntegerType 32) =
     Inr (BitCast (Load (BitCast (IntToPtr (ConstantInt (pointerSizeInBits ctx (ADDRESS_SPACE_A32 ctx)) 0)
                                    (PointerType (IntegerType 32) (ADDRESS_SPACE_A32 ctx)))
                           (PointerType (FixedVectorType (IntegerType 32) 1) (ADDRESS_SPACE_A32 ctx)))
                    (Some 4)) (IntegerType 32))"
    using BuildLoadInst_aligned_scalar [of 4 0 ctx] by simp
  define L where "L = BitCast (Load (BitCast (IntToPtr (ConstantInt (pointerSizeInBits ctx (ADDRESS_SPACE_A32 ctx)) 0)
                                    (PointerType (IntegerType 32) (ADDRESS_SPACE_A32 ctx)))
                           (PointerType (FixedVectorType (IntegerType 32) 1) (ADDRESS_SPACE_A32 ctx)))
                    (Some 4)) (IntegerType 32)"
  define w where "w = le_nat (load_bytes e (ADDRESS_SPACE_A32 ctx) 0 4)"
  have evL: "eval e L = Some (IntV 32 w)"
    unfolding L_def w_def using eval_load_scalar [of 4 0 _ e "ADDRESS_SPACE_A32 ctx"] by simp
  have top: "w div 2 ^ 24 = unat (memory e (ADDRESS_SPACE_A32 ctx) SIMDSIZE)"
    unfolding w_def load_bytes_4 top_byte_of_word by (simp add: layout_values)
  have ev: "eval e (LShr L (ConstantInt 32 24)) =
      Some (IntV 32 (unat (memory e (ADDRESS_SPACE_A32 ctx) SIMDSIZE)))"
    unfolding top [symmetric] by (simp add: evL)
  have g: "getWorkDim ctx st F CI = Inr (LShr L (ConstantInt 32 24))"
    using assms by (simp add: getWorkDim_def layout_values b L_def CreateLShr_def ConstantInt_get_def
        getScalarSizeInBits_def)
  show ?thesis using g ev by blast
qed

text \<open>
  C1 fails on the code. The claim has the work-dimension query read the field at
  \<open>NUM_WORK_DIM\<close>. Over a side buffer with \<open>num_work_dim = 3\<close> at byte 2 and
  \<open>simd_width = 16\<close> at byte 3, the lowering the pass emits (a load at byte offset 0 and
  a shift by 24 bits) returns 16, the SIMD width, and not the work dimension 3.
\<close>

theorem getWorkDim_returns_simd_width:
  "hasStackCallAttr F_stack \<and> NUM_WORK_DIM = 2 \<and> SIMDSIZE = 3 \<and>
   memory (env_ex [0x60, 0, 3, 16, 8, 0, 0, 0]) (ADDRESS_SPACE_A32 ctx_ex) NUM_WORK_DIM = 3 \<and>
   memory (env_ex [0x60, 0, 3, 16, 8, 0, 0, 0]) (ADDRESS_SPACE_A32 ctx_ex) SIMDSIZE = 16 \<and>
   getWorkDim ctx_ex st_ex F_stack CI_work_dim =
     Inr (LShr (BitCast (Load (BitCast (IntToPtr (ConstantInt 32 0) (PointerType (IntegerType 32) 5))
                                 (PointerType (FixedVectorType (IntegerType 32) 1) 5)) (Some 4))
                  (IntegerType 32))
            (ConstantInt 32 24)) \<and>
   map_sum id (eval (env_ex [0x60, 0, 3, 16, 8, 0, 0, 0]))
     (getWorkDim ctx_ex st_ex F_stack CI_work_dim) = Inr (Some (IntV 32 16))"
proof -
  have h: "hasStackCallAttr F_stack" by (simp add: hasStackCallAttr_def F_stack_def)
  have b0: "BuildLoadInst ctx_ex 0 (IntegerType 32) =
     Inr (BitCast (Load (BitCast (IntToPtr (ConstantInt 32 0) (PointerType (IntegerType 32) 5))
                                 (PointerType (FixedVectorType (IntegerType 32) 1) 5)) (Some 4))
                  (IntegerType 32))"
    using BuildLoadInst_aligned_scalar [of 4 0 ctx_ex] by (simp add: ctx_ex_def)
  have g: "getWorkDim ctx_ex st_ex F_stack CI_work_dim =
     Inr (LShr (BitCast (Load (BitCast (IntToPtr (ConstantInt 32 0) (PointerType (IntegerType 32) 5))
                                 (PointerType (FixedVectorType (IntegerType 32) 1) 5)) (Some 4))
                  (IntegerType 32))
            (ConstantInt 32 24))"
    using h by (simp add: getWorkDim_def layout_values b0 CreateLShr_def ConstantInt_get_def
        getScalarSizeInBits_def)
  have m: "memory (env_ex [0x60, 0, 3, 16, 8, 0, 0, 0]) (ADDRESS_SPACE_A32 ctx_ex) NUM_WORK_DIM = 3"
    "memory (env_ex [0x60, 0, 3, 16, 8, 0, 0, 0]) (ADDRESS_SPACE_A32 ctx_ex) SIMDSIZE = 16"
    by (simp_all add: env_ex_def ctx_ex_def layout_values)
  obtain v where v: "getWorkDim ctx_ex st_ex F_stack CI_work_dim = Inr v"
    "eval (env_ex [0x60, 0, 3, 16, 8, 0, 0, 0]) v =
       Some (IntV 32 (unat (memory (env_ex [0x60, 0, 3, 16, 8, 0, 0, 0]) (ADDRESS_SPACE_A32 ctx_ex) SIMDSIZE)))"
    using getWorkDim_IndirectStack_value [OF h] by blast
  have c: "map_sum id (eval (env_ex [0x60, 0, 3, 16, 8, 0, 0, 0]))
     (getWorkDim ctx_ex st_ex F_stack CI_work_dim) = Inr (Some (IntV 32 16))"
    unfolding v(1) map_sum.simps v(2) m(2) by simp
  have n: "NUM_WORK_DIM = 2" "SIMDSIZE = 3" by (simp_all add: layout_values)
  from h n m g c show ?thesis by (intro conjI)
qed

section \<open>C2: the field loader's round trip\<close>

text \<open>
  C2 holds on the aligned path (\<open>BuildLoadInst_aligned_roundtrip_scalar\<close> and
  \<open>BuildLoadInst_aligned_roundtrip_vector\<close> above: one load of \<open>S\<close> bytes at \<open>O\<close>, whose
  bytes are the buffer's at \<open>[O, O + S)\<close>). On the misaligned path the source bitcasts
  the loaded \<open>2 * S\<close> bytes to the scalar type \<open>i8\<close>, not to a vector of bytes, and
  extracts lanes from that scalar: the sequence it emits is ill-formed and has no value
  (\<open>BuildLoadInst_misaligned_scalar_broken\<close>, for every misaligned offset of an integer
  type). The theorem evaluates the loader at offset 2 with a 32-bit type: it returns a
  sequence, the sequence is not well-formed, and it has no value.
\<close>

theorem BuildLoadInst_misaligned_fails:
  "\<not> isl (BuildLoadInst ctx_ex 2 (IntegerType 32)) \<and>
   \<not> verify (projr (BuildLoadInst ctx_ex 2 (IntegerType 32))) \<and>
   eval (env_ex [0x60, 0, 3, 16, 8, 0, 0, 0]) (projr (BuildLoadInst ctx_ex 2 (IntegerType 32))) = None"
  using BuildLoadInst_misaligned_scalar_broken [of 4 2 ctx_ex "env_ex [0x60, 0, 3, 16, 8, 0, 0, 0]"]
  by auto

section \<open>C3: the local id in IndirectStack mode\<close>




section \<open>C4: the hidden-argument resolver\<close>

text \<open>
  C4. With \<open>P\<close> formal parameters, \<open>N\<close> hidden arguments and \<open>i\<close> the index of the queried
  kind among them, the resolver returns formal parameter number \<open>P - N + i\<close> when
  \<open>N \<le> P\<close> (and \<open>i < N\<close>, the kind being one of the hidden arguments); when \<open>P < N\<close> the
  assertion fails and no parameter is returned. \<open>N\<close> and \<open>i\<close> are what the class
  \<^verbatim>\<open>ImplicitArgs\<close> supplies; the theorem holds whatever they are.
\<close>

theorem getImplicitArg_resolves:
  "let N = length (m_implicitArgs st);
       P = arg_size pFunc;
       i = getArgIndex (m_implicitArgs st) argType
   in (N \<le> P \<and> i < N \<longrightarrow>
         getImplicitArg st pFunc argType =
           Inr (Argument (P - N + i) (arg_types pFunc ! (P - N + i)))) \<and>
      (P < N \<longrightarrow> getImplicitArg st pFunc argType = Inl AssertionFailed)"
  by (auto simp add: getImplicitArg_def IGC_ASSERT_MESSAGE_def Let_def)

text \<open>
  The witness of C4, the spec's example: three hidden arguments, index 1, five formal
  parameters give parameter number \<open>P - 2 = 3\<close>; two formal parameters fail the assertion.
\<close>

theorem getImplicitArg_resolves_witness:
  "length (m_implicitArgs st_hidden) = 3 \<and>
   getArgIndex (m_implicitArgs st_hidden) PAYLOAD_HEADER = 1 \<and>
   arg_size F_hidden = 5 \<and>
   getImplicitArg st_hidden F_hidden PAYLOAD_HEADER =
     Inr (Argument (5 - 2) (FixedVectorType (IntegerType 32) 8)) \<and>
   arg_size F_short < length (m_implicitArgs st_hidden) \<and>
   getImplicitArg st_hidden F_short PAYLOAD_HEADER = Inl AssertionFailed"
  using getImplicitArg_resolves [of st_hidden F_hidden PAYLOAD_HEADER]
    getImplicitArg_resolves [of st_hidden F_short PAYLOAD_HEADER]
  by (simp add: Let_def st_hidden_def F_hidden_def F_short_def arg_size_def)

section \<open>C5: width adaptation in the driver\<close>

text \<open>
  C5. For a recognized query call whose handler returns the value \<open>V\<close> of an integer type
  of \<open>wv\<close> bits, the call being of \<open>wc\<close> bits, the driver rewires the uses of the call to
  \<open>V\<close> extended with zeros to \<open>wc\<close> bits when \<open>wv < wc\<close>, and to \<open>V\<close> itself, with no
  cast, when \<open>wc \<le> wv\<close>. In both cases the unsigned value of the result is that of \<open>V\<close>:
  nothing is truncated and no sign bit is copied.
\<close>

theorem visitCallInst_width_adapt:
  assumes "calledFunction CI = Some funcName"
    and "dispatchWIFunc ctx st F CI funcName = Some (Inr V)"
    and "type_of V = IntegerType wv" and "callType CI = IntegerType wc"
    and "eval e V = Some (IntV wv n)"
  shows "visitCallInst ctx st F i CI =
           Inr (st\<lparr>m_changed := True\<rparr>,
                eraseFromParent i
                  (replaceAllUsesWith (InstResult i (callType CI)) (widthAdapt CI V) F)) \<and>
         (wv < wc \<longrightarrow> widthAdapt CI V = ZExt V (IntegerType wc)) \<and>
         (wc \<le> wv \<longrightarrow> widthAdapt CI V = V) \<and>
         eval e (widthAdapt CI V) = Some (IntV (max wv wc) n)"
  using assms
  by (auto simp add: visitCallInst_def widthAdapt_def getScalarSizeInBits_def max_def)

text \<open>
  The witness of C5: a 64-bit local-id query resolved to the 16-bit hidden argument. The
  use of the call becomes a use of the zero-extended argument, and for the argument value
  \<open>0x8001\<close> the 64-bit result is \<open>0x8001\<close>, its upper bits zero.
\<close>

theorem visitCallInst_width_adapt_witness:
  "dispatchWIFunc ctx_ex st_lid F_lid64 CI_local_id_x64 GET_LOCAL_ID_X =
     Some (Inr (Argument 1 (IntegerType 16))) \<and>
   visitCallInst ctx_ex st_lid F_lid64 0 CI_local_id_x64 =
     Inr (st_lid\<lparr>m_changed := True\<rparr>,
          F_lid64\<lparr>body := [(1, Other (Add (ZExt (Argument 1 (IntegerType 16)) (IntegerType 64))
                                          (ConstantInt 64 1)))]\<rparr>) \<and>
   eval (env_arg 1 (IntV 16 0x8001)) (ZExt (Argument 1 (IntegerType 16)) (IntegerType 64)) =
     Some (IntV 64 0x8001)"
proof -
  have d: "dispatchWIFunc ctx_ex st_lid F_lid64 CI_local_id_x64 GET_LOCAL_ID_X =
     Some (Inr (Argument 1 (IntegerType 16)))"
    by (simp add: dispatchWIFunc_def getLocalId_def hasStackCallAttr_def F_lid64_def
        getImplicitArg_def IGC_ASSERT_MESSAGE_def st_lid_def arg_size_def)
  have c: "calledFunction CI_local_id_x64 = Some GET_LOCAL_ID_X"
    by (simp add: CI_local_id_x64_def)
  have ev: "eval (env_arg 1 (IntV 16 0x8001)) (Argument 1 (IntegerType 16)) = Some (IntV 16 0x8001)"
    by (simp add: env_arg_def)
  show ?thesis
    using visitCallInst_width_adapt [OF c d _ _ ev, of 64 0] d
    by (simp add: CI_local_id_x64_def eraseFromParent_def replaceAllUsesWith_def F_lid64_def
        env_arg_def)
qed

section \<open>C6: the group id\<close>

text \<open>
  C6. For a group-id query with the runtime dimension \<open>dim\<close>, the lowering extracts lane
  \<open>dim + (dim == 0 ? 1 : 5)\<close>, a 32-bit sum, of the thread-state vector: lanes 1, 6, 7
  for the dimensions 0, 1, 2. The lane index is the same tree in both modes; the vector
  is the platform query \<^verbatim>\<open>GenISA_getR0\<close> in IndirectStack mode and the hidden argument
  \<^verbatim>\<open>R0\<close> otherwise.
\<close>

theorem getGroupId_lane:
  assumes "argOperands CI = dim # rest" and "eval e dim = Some (IntV 32 d)"
  shows "let index = Add dim (Select (ICmp ICMP_EQ dim (ConstantInt 32 0))
                                     (ConstantInt 32 1) (ConstantInt 32 5))
         in (hasStackCallAttr F \<longrightarrow>
               getGroupId ctx st F CI = Inr (ExtractElement (getR0 ctx) index)) \<and>
            (\<not> hasStackCallAttr F \<longrightarrow>
               getGroupId ctx st F CI =
                 bind_err (getImplicitArg st F R0) (\<lambda>V. Inr (ExtractElement V index))) \<and>
            eval e index = Some (IntV 32 ((d + (if d = 0 then 1 else 5)) mod 2 ^ 32)) \<and>
            (d = 0 \<longrightarrow> eval e index = Some (IntV 32 1)) \<and>
            (d = 1 \<longrightarrow> eval e index = Some (IntV 32 6)) \<and>
            (d = 2 \<longrightarrow> eval e index = Some (IntV 32 7))"
  using assms by (simp add: Let_def getGroupId_def getArgOperand_def)

text \<open>
  The witness of C6: dimension 1 in a function of each mode. The lane index evaluates to
  6 in both, and lane 6 of the thread-state vector \<open>(10, ..., 17)\<close> is 16.
\<close>

theorem getGroupId_lane_witness:
  "argOperands (CI_dim GET_GROUP_ID) = [Argument 0 (IntegerType 32)] \<and>
   eval (env_r0 1) (Argument 0 (IntegerType 32)) = Some (IntV 32 1) \<and>
   (\<exists>index. getGroupId ctx_ex st_ex F_stack (CI_dim GET_GROUP_ID) =
              Inr (ExtractElement (getR0 ctx_ex) index) \<and>
            getGroupId ctx_ex st_hidden F_hidden (CI_dim GET_GROUP_ID) =
              Inr (ExtractElement (Argument 2 (FixedVectorType (IntegerType 32) 8)) index) \<and>
            eval (env_r0 1) index = Some (IntV 32 6) \<and>
            eval (env_r0 1) (ExtractElement (getR0 ctx_ex) index) = Some (IntV 32 16))"
proof -
  have a: "argOperands (CI_dim GET_GROUP_ID) = [Argument 0 (IntegerType 32)]"
    by (simp add: CI_dim_def)
  have ev: "eval (env_r0 1) (Argument 0 (IntegerType 32)) = Some (IntV 32 1)"
    by (simp add: env_r0_def)
  have s: "hasStackCallAttr F_stack" "\<not> hasStackCallAttr F_hidden"
    by (simp_all add: hasStackCallAttr_def F_stack_def F_hidden_def)
  have h: "getImplicitArg st_hidden F_hidden R0 =
      Inr (Argument 2 (FixedVectorType (IntegerType 32) 8))"
    by (simp add: getImplicitArg_def IGC_ASSERT_MESSAGE_def st_hidden_def F_hidden_def arg_size_def)
  have r: "eval (env_r0 1) (getR0 ctx_ex) =
      Some (VecV 32 [Some 10, Some 11, Some 12, Some 13, Some 14, Some 15, Some 16, Some 17])"
    by (simp add: getR0_def env_r0_def)
  show ?thesis
    using getGroupId_lane [OF a ev, of F_stack ctx_ex st_ex]
      getGroupId_lane [OF a ev, of F_hidden ctx_ex st_hidden] a ev s h r
    by (simp add: Let_def del: eval.simps(7))
qed

section \<open>C7: the known work-group size\<close>

text \<open>
  C7. Let the visit of the call sites of \<open>F\<close> end with the function \<open>F'\<close>. If the metadata
  gives compile-time group dimensions \<open>(x, y, z)\<close> and the hidden argument
  \<^verbatim>\<open>ENQUEUED_LOCAL_WORK_SIZE\<close> is present, the pass leaves \<open>F'\<close> with every use of that
  argument replaced by the constant vector \<open>(x, y, z)\<close>, and no use of the argument
  remains. If there are no such dimensions, or the argument is absent, the pass leaves
  \<open>F'\<close> as the visit left it.
\<close>

theorem runOnFunction_known_work_group_size:
  assumes "visit ctx \<lparr>m_changed = False, m_implicitArgs = implicitArgs MDUtils\<rparr> F = Inr (st', F')"
  shows "(\<forall>x y z Arg.
            threadGroupDims MDUtils = Some (x, y, z) \<and>
            ImplicitArgs_getImplicitArg (implicitArgs MDUtils) F ENQUEUED_LOCAL_WORK_SIZE = Some Arg
            \<longrightarrow> runOnFunction ctx MDUtils F =
                  Inr (m_changed st', replaceAllUsesWith Arg (ConstantDataVector [x, y, z]) F') \<and>
                \<not> hasUses Arg (replaceAllUsesWith Arg (ConstantDataVector [x, y, z]) F')) \<and>
         (threadGroupDims MDUtils = None \<or>
          ImplicitArgs_getImplicitArg (implicitArgs MDUtils) F ENQUEUED_LOCAL_WORK_SIZE = None
            \<longrightarrow> runOnFunction ctx MDUtils F = Inr (m_changed st', F'))"
proof (intro conjI allI impI)
  fix x y z Arg
  assume h: "threadGroupDims MDUtils = Some (x, y, z) \<and>
     ImplicitArgs_getImplicitArg (implicitArgs MDUtils) F ENQUEUED_LOCAL_WORK_SIZE = Some Arg"
  show "runOnFunction ctx MDUtils F =
          Inr (m_changed st', replaceAllUsesWith Arg (ConstantDataVector [x, y, z]) F')"
    unfolding runOnFunction_after_visit [OF assms] using h
    by (simp add: getKnownWorkGroupSize_def)
  obtain k ty where k: "Arg = Argument k ty"
    using ImplicitArgs_getImplicitArg_is_Argument h by blast
  show "\<not> hasUses Arg (replaceAllUsesWith Arg (ConstantDataVector [x, y, z]) F')"
    unfolding k by (rule hasUses_replaceAllUsesWith) simp
next
  assume h: "threadGroupDims MDUtils = None \<or>
     ImplicitArgs_getImplicitArg (implicitArgs MDUtils) F ENQUEUED_LOCAL_WORK_SIZE = None"
  show "runOnFunction ctx MDUtils F = Inr (m_changed st', F')"
    unfolding runOnFunction_after_visit [OF assms] using h
    by (auto simp add: getKnownWorkGroupSize_def split: option.splits)
qed


text \<open>
  The witness of C7: a function with an enqueued-local-size query and a direct use of the
  hidden argument. With the dimensions (8, 1, 1) both uses become uses of the constant
  vector; without dimensions the argument stays.
\<close>

theorem runOnFunction_known_work_group_size_witness:
  "runOnFunction ctx_ex md_known F_enq =
     Inr (True,
          F_enq\<lparr>body := [(1, Other (Add (ExtractElement (ConstantDataVector [8, 1, 1])
                                             (Argument 0 (IntegerType 32)))
                                          (ExtractElement (ConstantDataVector [8, 1, 1])
                                             (ConstantInt 32 1))))]\<rparr>) \<and>
   runOnFunction ctx_ex md_unknown F_enq =
     Inr (True,
          F_enq\<lparr>body := [(1, Other (Add (ExtractElement enq_arg (Argument 0 (IntegerType 32)))
                                          (ExtractElement enq_arg (ConstantInt 32 1))))]\<rparr>)"
proof -
  have v1: "visit ctx_ex \<lparr>m_changed = False, m_implicitArgs = implicitArgs md_known\<rparr> F_enq =
     Inr (\<lparr>m_changed = True, m_implicitArgs = [ENQUEUED_LOCAL_WORK_SIZE]\<rparr>,
        F_enq\<lparr>body := [(1, Other (Add (ExtractElement enq_arg (Argument 0 (IntegerType 32)))
                                        (ExtractElement enq_arg (ConstantInt 32 1))))]\<rparr>)"
    using visit_F_enq by (simp add: md_known_def)
  have v2: "visit ctx_ex \<lparr>m_changed = False, m_implicitArgs = implicitArgs md_unknown\<rparr> F_enq =
     Inr (\<lparr>m_changed = True, m_implicitArgs = [ENQUEUED_LOCAL_WORK_SIZE]\<rparr>,
        F_enq\<lparr>body := [(1, Other (Add (ExtractElement enq_arg (Argument 0 (IntegerType 32)))
                                        (ExtractElement enq_arg (ConstantInt 32 1))))]\<rparr>)"
    using visit_F_enq by (simp add: md_unknown_def)
  show ?thesis
    using runOnFunction_known_work_group_size [OF v1] runOnFunction_known_work_group_size [OF v2]
      enq_arg_present(1)
    by (simp add: md_known_def md_unknown_def replaceAllUsesWith_def enq_arg_def)
qed

section \<open>C8: the value the entry point returns\<close>

text \<open>
  C8 fails on the code. \<^verbatim>\<open>runOnFunction\<close> returns \<^verbatim>\<open>m_changed\<close>, which only
  \<^verbatim>\<open>visitCallInst\<close> sets; the replacement of the uses of the hidden argument
  \<^verbatim>\<open>ENQUEUED_LOCAL_WORK_SIZE\<close> does not set it. On a function with known group dimensions
  that passes the hidden argument on and has no query call, the pass rewrites the call's
  operand and returns false.
\<close>

theorem runOnFunction_unreported_change:
  "runOnFunction ctx_ex md_known F_enq_forward =
     Inr (False,
          F_enq_forward\<lparr>body := [(0, Call (CI_forward (ConstantDataVector [8, 1, 1])))]\<rparr>) \<and>
   F_enq_forward\<lparr>body := [(0, Call (CI_forward (ConstantDataVector [8, 1, 1])))]\<rparr> \<noteq>
     F_enq_forward"
proof -
  have v: "visit ctx_ex \<lparr>m_changed = False, m_implicitArgs = implicitArgs md_known\<rparr> F_enq_forward =
     Inr (\<lparr>m_changed = False, m_implicitArgs = [ENQUEUED_LOCAL_WORK_SIZE]\<rparr>, F_enq_forward)"
    using visit_F_enq_forward by (simp add: md_known_def)
  have r: "runOnFunction ctx_ex md_known F_enq_forward =
     Inr (False, replaceAllUsesWith enq_arg (ConstantDataVector [8, 1, 1]) F_enq_forward)"
    unfolding runOnFunction_after_visit [OF v] using enq_arg_present(2)
    by (simp add: getKnownWorkGroupSize_def md_known_def)
  have ne: "body (F_enq_forward\<lparr>body := [(0, Call (CI_forward (ConstantDataVector [8, 1, 1])))]\<rparr>)
      \<noteq> body F_enq_forward"
    by (simp add: F_enq_forward_def enq_arg_def CI_forward_def)
  have "F_enq_forward\<lparr>body := [(0, Call (CI_forward (ConstantDataVector [8, 1, 1])))]\<rparr> \<noteq>
     F_enq_forward"
    using ne by metis
  then show ?thesis
    using r by (simp add: replaceAllUsesWith_def F_enq_forward_def enq_arg_def CI_forward_def)
qed

section \<open>C9: enqueued local size in IndirectStack mode\<close>

text \<open>
  C9. In a function that carries the stack-call attribute the lowering of an
  enqueued-local-size query is the lowering of a local-size query: both field-load the
  vector of three 32-bit elements at \<open>LOCAL_SIZE_X\<close> of the side buffer (one aligned load)
  and extract the lane given by the call's argument.
\<close>

theorem getEnqueuedLocalSize_eq_getLocalSize:
  assumes "hasStackCallAttr F"
  shows "getEnqueuedLocalSize ctx st F CI = getLocalSize ctx st F CI \<and>
         (\<forall>dim rest. argOperands CI = dim # rest \<longrightarrow>
            getLocalSize ctx st F CI =
              Inr (ExtractElement
                     (Load (BitCast (IntToPtr (ConstantInt (pointerSizeInBits ctx (ADDRESS_SPACE_A32 ctx))
                                                 LOCAL_SIZE_X)
                                       (PointerType (IntegerType 32) (ADDRESS_SPACE_A32 ctx)))
                              (PointerType (FixedVectorType (IntegerType 32) 3)
                                 (ADDRESS_SPACE_A32 ctx)))
                        (Some 4))
                     dim))"
proof -
  have b: "BuildLoadInst ctx LOCAL_SIZE_X (FixedVectorType (IntegerType 32) 3) =
     Inr (Load (BitCast (IntToPtr (ConstantInt (pointerSizeInBits ctx (ADDRESS_SPACE_A32 ctx)) LOCAL_SIZE_X)
                                    (PointerType (IntegerType 32) (ADDRESS_SPACE_A32 ctx)))
                           (PointerType (FixedVectorType (IntegerType 32) 3) (ADDRESS_SPACE_A32 ctx)))
                    (Some 4))"
    using BuildLoadInst_aligned_vector [of 4 LOCAL_SIZE_X 3 ctx] by (simp add: layout_values)
  show ?thesis using assms
    by (simp add: getEnqueuedLocalSize_def getLocalSize_def b getArgOperand_def)
qed

text \<open>The witness of C9: the load is at byte offset 4 of the side buffer.\<close>

theorem getEnqueuedLocalSize_eq_getLocalSize_witness:
  "hasStackCallAttr F_stack \<and>
   getEnqueuedLocalSize ctx_ex st_ex F_stack (CI_dim GET_ENQUEUED_LOCAL_SIZE) =
     Inr (ExtractElement
            (Load (BitCast (IntToPtr (ConstantInt 32 4) (PointerType (IntegerType 32) 5))
                     (PointerType (FixedVectorType (IntegerType 32) 3) 5))
               (Some 4))
            (Argument 0 (IntegerType 32)))"
proof -
  have s: "hasStackCallAttr F_stack" by (simp add: hasStackCallAttr_def F_stack_def)
  show ?thesis
    using getEnqueuedLocalSize_eq_getLocalSize [OF s, of ctx_ex st_ex "CI_dim GET_ENQUEUED_LOCAL_SIZE"] s
    by (simp add: CI_dim_def ctx_ex_def layout_values)
qed

section \<open>C10: stage-in grid origin and the sync buffer\<close>

lemma getImplicitArg_no_hidden:
  "m_implicitArgs st = [] \<Longrightarrow> getImplicitArg st F t = Inl UndefinedBehaviour"
  by (simp add: getImplicitArg_def IGC_ASSERT_MESSAGE_def)

text \<open>
  C10, as the code has it. The handlers of the stage-in grid origin and of the sync-buffer
  pointer do not read the stack-call marker: their results are the same whatever its
  value, and no load from the side buffer is emitted. Both resolve through the hidden
  argument (\<^verbatim>\<open>STAGE_IN_GRID_ORIGIN\<close>, \<^verbatim>\<open>SYNC_BUFFER\<close>). When the hidden argument is among
  the \<open>N\<close> hidden arguments and \<open>N \<le> P\<close> (and, for the grid origin, the call has its
  argument), no error is raised, also in a function that carries the attribute: the sync
  buffer is the formal parameter itself, the grid origin the lane of it that the call's
  argument gives. When the resolver fails, the handler fails with the resolver's error.
\<close>

theorem stage_in_and_sync_buffer_ignore_mode:
  "getStageInGridOrigin ctx st (F\<lparr>visaStackCall := b\<rparr>) CI = getStageInGridOrigin ctx st F CI \<and>
   getSyncBufferPtr ctx st (F\<lparr>visaStackCall := b\<rparr>) CI = getSyncBufferPtr ctx st F CI \<and>
   getSyncBufferPtr ctx st F CI = getImplicitArg st F SYNC_BUFFER \<and>
   (\<forall>err. getImplicitArg st F STAGE_IN_GRID_ORIGIN = Inl err \<longrightarrow>
      getStageInGridOrigin ctx st F CI = Inl err) \<and>
   (let N = length (m_implicitArgs st);
        P = arg_size F;
        s = P - N + getArgIndex (m_implicitArgs st) SYNC_BUFFER;
        g = P - N + getArgIndex (m_implicitArgs st) STAGE_IN_GRID_ORIGIN
    in (N \<le> P \<and> SYNC_BUFFER \<in> set (m_implicitArgs st) \<longrightarrow>
          getSyncBufferPtr ctx st F CI = Inr (Argument s (arg_types F ! s))) \<and>
       (N \<le> P \<and> STAGE_IN_GRID_ORIGIN \<in> set (m_implicitArgs st) \<and> argOperands CI = dim # rest \<longrightarrow>
          getStageInGridOrigin ctx st F CI =
            Inr (ExtractElement (Argument g (arg_types F ! g)) dim)))"
proof -
  have r: "getImplicitArg st F t =
      Inr (Argument (arg_size F - length (m_implicitArgs st) + getArgIndex (m_implicitArgs st) t)
             (arg_types F ! (arg_size F - length (m_implicitArgs st) + getArgIndex (m_implicitArgs st) t)))"
    if "length (m_implicitArgs st) \<le> arg_size F" "t \<in> set (m_implicitArgs st)" for t
  proof -
    have "arg_size F - length (m_implicitArgs st) + getArgIndex (m_implicitArgs st) t < arg_size F"
      using that(1) getArgIndex_less [OF that(2)] by linarith
    then show ?thesis using that(1)
      by (simp add: getImplicitArg_def IGC_ASSERT_MESSAGE_def Let_def)
  qed
  show ?thesis
    using r [of SYNC_BUFFER] r [of STAGE_IN_GRID_ORIGIN]
    by (auto simp add: Let_def getStageInGridOrigin_def getSyncBufferPtr_def getImplicitArg_marker
        getArgOperand_def)
qed

text \<open>
  The witness of C10: a function that carries the stack-call attribute and has the two
  hidden arguments; both queries resolve to them.
\<close>

theorem stage_in_and_sync_buffer_ignore_mode_witness:
  "hasStackCallAttr F_stack_hidden \<and>
   length (m_implicitArgs st_stage) \<le> arg_size F_stack_hidden \<and>
   getStageInGridOrigin ctx_ex st_stage F_stack_hidden (CI_dim GET_STAGE_IN_GRID_ORIGIN) =
     Inr (ExtractElement (Argument 1 (FixedVectorType (IntegerType 32) 3))
            (Argument 0 (IntegerType 32))) \<and>
   getSyncBufferPtr ctx_ex st_stage F_stack_hidden (CI_dim GET_SYNC_BUFFER) =
     Inr (Argument 2 (PointerType (IntegerType 8) 1))"
proof -
  have h: "hasStackCallAttr F_stack_hidden"
    by (simp add: hasStackCallAttr_def F_stack_hidden_def)
  have n: "length (m_implicitArgs st_stage) \<le> arg_size F_stack_hidden"
    by (simp add: st_stage_def F_stack_hidden_def arg_size_def)
  have p: "STAGE_IN_GRID_ORIGIN \<in> set (m_implicitArgs st_stage)"
    "SYNC_BUFFER \<in> set (m_implicitArgs st_stage)"
    by (simp_all add: st_stage_def)
  have o: "argOperands (CI_dim GET_STAGE_IN_GRID_ORIGIN) = Argument 0 (IntegerType 32) # []"
    by (simp add: CI_dim_def)
  have k: "arg_size F_stack_hidden - length (m_implicitArgs st_stage) +
             getArgIndex (m_implicitArgs st_stage) STAGE_IN_GRID_ORIGIN = 1"
    "arg_size F_stack_hidden - length (m_implicitArgs st_stage) +
             getArgIndex (m_implicitArgs st_stage) SYNC_BUFFER = 2"
    by (simp_all add: st_stage_def F_stack_hidden_def arg_size_def)
  have t: "arg_types F_stack_hidden ! 1 = FixedVectorType (IntegerType 32) 3"
    "arg_types F_stack_hidden ! 2 = PointerType (IntegerType 8) 1"
    by (simp_all add: F_stack_hidden_def)
  have g: "getStageInGridOrigin ctx_ex st_stage F_stack_hidden (CI_dim GET_STAGE_IN_GRID_ORIGIN) =
     Inr (ExtractElement (Argument 1 (FixedVectorType (IntegerType 32) 3))
            (Argument 0 (IntegerType 32)))"
    using stage_in_and_sync_buffer_ignore_mode [where ctx = ctx_ex and st = st_stage
        and F = F_stack_hidden and b = True and CI = "CI_dim GET_STAGE_IN_GRID_ORIGIN"
        and dim = "Argument 0 (IntegerType 32)" and rest = "[]", unfolded Let_def k t] n p o
    by blast
  have s: "getSyncBufferPtr ctx_ex st_stage F_stack_hidden (CI_dim GET_SYNC_BUFFER) =
     Inr (Argument 2 (PointerType (IntegerType 8) 1))"
    using stage_in_and_sync_buffer_ignore_mode [where ctx = ctx_ex and st = st_stage
        and F = F_stack_hidden and b = True and CI = "CI_dim GET_SYNC_BUFFER"
        and dim = "Argument 0 (IntegerType 32)" and rest = "[]", unfolded Let_def k t] n p
    by blast
  from h n g s show ?thesis by (intro conjI)
qed

text \<open>
  C10 as stated fails in "no error is raised". In a function that carries the stack-call
  attribute and has no hidden argument the resolver reads past the last formal parameter,
  whatever index the kind is given; and with two hidden arguments recorded for a function
  of one parameter the assertion fails. Both handlers fail with the resolver.
\<close>

theorem stage_in_and_sync_buffer_error_counterexample:
  "hasStackCallAttr F_stack_plain \<and>
   getStageInGridOrigin ctx_ex st_ex F_stack_plain (CI_dim GET_STAGE_IN_GRID_ORIGIN) =
     Inl UndefinedBehaviour \<and>
   getSyncBufferPtr ctx_ex st_ex F_stack_plain (CI_dim GET_SYNC_BUFFER) = Inl UndefinedBehaviour \<and>
   getStageInGridOrigin ctx_ex st_stage F_stack_plain (CI_dim GET_STAGE_IN_GRID_ORIGIN) =
     Inl AssertionFailed \<and>
   getSyncBufferPtr ctx_ex st_stage F_stack_plain (CI_dim GET_SYNC_BUFFER) = Inl AssertionFailed"
proof -
  have a: "getImplicitArg st_ex F_stack_plain t = Inl UndefinedBehaviour" for t
    by (rule getImplicitArg_no_hidden) (simp add: st_ex_def)
  have b: "getImplicitArg st_stage F_stack_plain t = Inl AssertionFailed" for t
    by (simp add: getImplicitArg_def IGC_ASSERT_MESSAGE_def st_stage_def F_stack_plain_def
        arg_size_def)
  have h: "hasStackCallAttr F_stack_plain"
    by (simp add: hasStackCallAttr_def F_stack_plain_def)
  show ?thesis
    using h by (simp add: getStageInGridOrigin_def getSyncBufferPtr_def a b)
qed

end
